theory Spec2Isabelle
  imports Complex_Main
begin

section \<open>Conventions of the embedding\<close>

text \<open>
  The two modules verified here are \<^verbatim>\<open>scripts/venue_manager.py\<close> (the cycle orchestrator,
  class \<^verbatim>\<open>AutomatedPredictionVenue\<close>) and \<^verbatim>\<open>scripts/trading_integration.py\<close> (the
  execution bridge, class \<^verbatim>\<open>PredictionTradingBridge\<close>).

  \<^item> Python floats are idealised as \<open>real\<close>, Python ints as \<open>int\<close>.
  \<^item> A raised instance of Python's \<^verbatim>\<open>Exception\<close> class is a value of \<open>exn\<close>; a
    computation that may raise returns \<open>exn + 'a\<close> with \<open>Inl\<close> for the raise. The
    handlers of the source are all \<^verbatim>\<open>except Exception\<close>, so they catch every \<open>exn\<close>.
    \<^verbatim>\<open>KeyboardInterrupt\<close> is not an \<^verbatim>\<open>Exception\<close>; it appears only in the main loop,
    the one place where the source handles it.
  \<^item> A JSON dictionary read with \<^verbatim>\<open>d[k]\<close> or \<^verbatim>\<open>d.get(k, default)\<close> is a record of
    optional fields: \<open>None\<close> is an absent key, \<open>subscript\<close> raises \<^verbatim>\<open>KeyError\<close> on it
    and \<open>get_or\<close> falls back to the default.
  \<^item> The methods the source leaves as stubs or delegates to collaborators (prediction
    retrieval, reputation weight, exposure lookup, the execution back end, the clock, file
    output) are fields of an environment record; the stub bodies of the source are given
    as the \<open>mock_\<close> and \<open>stub_\<close> instances.
  \<^item> Text built by f-strings is kept as the tuple of the values it embeds.
\<close>

datatype exn = KeyError string | ZeroDivisionError | TypeError string | Error string

definition subscript :: "string \<Rightarrow> 'a option \<Rightarrow> exn + 'a" where
  "subscript k v = (case v of None \<Rightarrow> Inl (KeyError k) | Some x \<Rightarrow> Inr x)"

definition get_or :: "'a option \<Rightarrow> 'a \<Rightarrow> 'a" where
  "get_or v d = (case v of None \<Rightarrow> d | Some x \<Rightarrow> x)"

definition truediv :: "real \<Rightarrow> real \<Rightarrow> exn + real" where
  "truediv a b = (if b = 0 then Inl ZeroDivisionError else Inr (a / b))"

section \<open>The venue configuration\<close>

text \<open>
  \<^verbatim>\<open>config/venue_config.json\<close>, with the sections and keys the two modules read. The
  orchestrator subscripts it (\<^verbatim>\<open>self.config["trading"]["execution_threshold"]\<close>), the
  bridge reads it with defaults
  (\<^verbatim>\<open>self.venue_config.get('trading', {}).get('execution_threshold', 0.7)\<close>).
\<close>

record trading_section =
  execution_threshold :: "real option"
  max_position_size :: "real option"

record agents_section =
  min_agents_per_market :: "int option"

record venue_config =
  trading :: "trading_section option"
  agents :: "agents_section option"

definition get_default_config :: venue_config where
  "get_default_config =
     \<lparr> trading = Some \<lparr> execution_threshold = Some 0.70, max_position_size = Some 0.025 \<rparr>,
       agents = Some \<lparr> min_agents_per_market = Some 3 \<rparr> \<rparr>"

section \<open>The orchestrator: consensus aggregation\<close>

record market =
  m_id :: string
  m_type :: string
  m_asset :: string
  m_participants :: "string list"

text \<open>An agent's prediction: the dictionary with keys \<^verbatim>\<open>signal\<close> and \<^verbatim>\<open>confidence\<close>.\<close>

record agent_prediction =
  p_signal :: real
  p_confidence :: real

record MarketConsensus =
  mc_asset :: string
  mc_signal_strength :: real
  mc_confidence :: real
  mc_agent_count :: int
  mc_prediction_data :: market
  mc_timestamp :: int

record TradingSignal =
  ts_asset :: string
  ts_direction :: string
  ts_size :: real
  ts_confidence :: real
  ts_reasoning :: "real \<times> real"
  ts_expiry :: int

record venue_stats =
  total_markets_created :: int
  total_predictions :: int
  vs_total_volume :: real
  vs_accuracy_rate :: real
  stat_active_markets :: "int option"
  stat_active_agents :: "int option"
  stat_pending_signals :: "int option"
  stat_last_update :: "int option"

text \<open>
  The instance state of \<^verbatim>\<open>AutomatedPredictionVenue\<close>. \<^verbatim>\<open>active_markets\<close> is a
  dictionary keyed by market id, kept in insertion order as Python does.
\<close>

record venue =
  config :: venue_config
  active_markets :: "(string \<times> market) list"
  agent_pool :: "string list"
  trading_signals :: "TradingSignal list"
  v_stats :: venue_stats

text \<open>
  The collaborators of the orchestrator. In the source \<^verbatim>\<open>get_agent_prediction\<close> is a
  stub with body \<^verbatim>\<open>pass\<close> (it returns \<^verbatim>\<open>None\<close>),
  \<^verbatim>\<open>get_agent_reputation_weight\<close> returns \<^verbatim>\<open>1.0\<close> and
  \<^verbatim>\<open>ExecutionEngine.execute_signal\<close> returns \<^verbatim>\<open>True\<close>. \<open>clock\<close> is
  \<^verbatim>\<open>datetime.now()\<close> in seconds. \<open>manage_markets\<close> (market creation and clean-up, which
  read the wall clock and the price feed) and \<open>save_metrics\<close> (file output) are given by
  their outcome: a raise leaves the venue as mutated so far. \<open>interrupted\<close> says that a
  \<^verbatim>\<open>KeyboardInterrupt\<close> reaches the main loop during the iteration.
\<close>

record venue_env =
  get_agent_prediction :: "string \<Rightarrow> string \<Rightarrow> agent_prediction option"
  get_agent_reputation_weight :: "string \<Rightarrow> real"
  execute_signal :: "TradingSignal \<Rightarrow> exn + bool"
  manage_markets :: "venue \<Rightarrow> exn \<times> venue + venue"
  save_metrics :: "venue_stats \<Rightarrow> exn option"
  clock :: int
  interrupted :: bool

definition stub_env :: "int \<Rightarrow> venue_env" where
  "stub_env t =
     \<lparr> get_agent_prediction = (\<lambda>agent_id market_id. None),
       get_agent_reputation_weight = (\<lambda>agent_id. 1.0),
       execute_signal = (\<lambda>signal. Inr True),
       manage_markets = (\<lambda>v. Inr v),
       save_metrics = (\<lambda>stats. None),
       clock = t,
       interrupted = False \<rparr>"

text \<open>
  The loop of \<^verbatim>\<open>calculate_crypto_consensus\<close> over the participants, with its three
  accumulators \<^verbatim>\<open>(total_weight, weighted_signal, confidence_sum)\<close>. A participant
  whose prediction is \<^verbatim>\<open>None\<close> is skipped (\<^verbatim>\<open>if agent_prediction:\<close>).
\<close>

fun consensus_loop ::
  "venue_env \<Rightarrow> string \<Rightarrow> string list \<Rightarrow> real \<times> real \<times> real \<Rightarrow> real \<times> real \<times> real" where
  "consensus_loop env mid [] acc = acc"
| "consensus_loop env mid (agent_id # rest) (total_weight, weighted_signal, confidence_sum) =
     (case get_agent_prediction env agent_id mid of
        None \<Rightarrow> consensus_loop env mid rest (total_weight, weighted_signal, confidence_sum)
      | Some agent_prediction \<Rightarrow>
          (let weight = get_agent_reputation_weight env agent_id
           in consensus_loop env mid rest
                (total_weight + weight,
                 weighted_signal + p_signal agent_prediction * weight,
                 confidence_sum + p_confidence agent_prediction * weight)))"

definition calculate_crypto_consensus :: "venue_env \<Rightarrow> market \<Rightarrow> exn + MarketConsensus option" where
  "calculate_crypto_consensus env mkt =
     (let participants = m_participants mkt in
      if length participants < 2 then Inr None
      else
        (case consensus_loop env (m_id mkt) participants (0, 0, 0) of
           (total_weight, weighted_signal, confidence_sum) \<Rightarrow>
             if total_weight = 0 then Inr None
             else
               (case truediv weighted_signal total_weight of
                  Inl e \<Rightarrow> Inl e
                | Inr signal_strength \<Rightarrow>
                    (case truediv confidence_sum total_weight of
                       Inl e \<Rightarrow> Inl e
                     | Inr avg_confidence \<Rightarrow>
                         Inr (Some \<lparr> mc_asset = m_asset mkt,
                                     mc_signal_strength = signal_strength,
                                     mc_confidence = avg_confidence,
                                     mc_agent_count = int (length participants),
                                     mc_prediction_data = mkt,
                                     mc_timestamp = clock env \<rparr>)))))"

text \<open>
  \<^verbatim>\<open>aggregate_consensus\<close>: one consensus per active market of type
  \<^verbatim>\<open>crypto_price\<close> for which \<^verbatim>\<open>calculate_crypto_consensus\<close> returns one.
\<close>

fun aggregate_loop ::
  "venue_env \<Rightarrow> (string \<times> market) list \<Rightarrow> MarketConsensus list \<Rightarrow> exn + MarketConsensus list" where
  "aggregate_loop env [] consensus_data = Inr consensus_data"
| "aggregate_loop env ((market_id, mkt) # rest) consensus_data =
     (if m_type mkt = ''crypto_price'' then
        (case calculate_crypto_consensus env mkt of
           Inl e \<Rightarrow> Inl e
         | Inr None \<Rightarrow> aggregate_loop env rest consensus_data
         | Inr (Some consensus) \<Rightarrow> aggregate_loop env rest (consensus_data @ [consensus]))
      else aggregate_loop env rest consensus_data)"

definition aggregate_consensus :: "venue_env \<Rightarrow> venue \<Rightarrow> exn + MarketConsensus list" where
  "aggregate_consensus env v = aggregate_loop env (active_markets v) []"

section \<open>The orchestrator: signal generation\<close>

definition config_trading :: "venue_config \<Rightarrow> string \<Rightarrow> (trading_section \<Rightarrow> 'a option) \<Rightarrow> exn + 'a" where
  "config_trading cfg key field =
     (case subscript ''trading'' (trading cfg) of
        Inl e \<Rightarrow> Inl e
      | Inr section \<Rightarrow> subscript key (field section))"

definition config_agents :: "venue_config \<Rightarrow> string \<Rightarrow> (agents_section \<Rightarrow> 'a option) \<Rightarrow> exn + 'a" where
  "config_agents cfg key field =
     (case subscript ''agents'' (agents cfg) of
        Inl e \<Rightarrow> Inl e
      | Inr section \<Rightarrow> subscript key (field section))"

text \<open>\<^verbatim>\<open>AutomatedPredictionVenue.calculate_position_size\<close>: the product, capped at the maximum.\<close>

definition calculate_position_size :: "venue_config \<Rightarrow> MarketConsensus \<Rightarrow> exn + real" where
  "calculate_position_size cfg consensus =
     (case config_trading cfg ''max_position_size'' max_position_size of
        Inl e \<Rightarrow> Inl e
      | Inr max_size \<Rightarrow>
          (let confidence_factor = mc_confidence consensus;
               signal_strength_factor = \<bar>mc_signal_strength consensus\<bar>;
               position_size = max_size * confidence_factor * signal_strength_factor
           in Inr (min position_size max_size)))"

definition make_signal :: "int \<Rightarrow> MarketConsensus \<Rightarrow> real \<Rightarrow> TradingSignal" where
  "make_signal t consensus sz =
     \<lparr> ts_asset = mc_asset consensus,
       ts_direction = (if mc_signal_strength consensus > 0 then ''long'' else ''short''),
       ts_size = sz,
       ts_confidence = mc_confidence consensus,
       ts_reasoning = (mc_signal_strength consensus, mc_confidence consensus),
       ts_expiry = t + 24 * 3600 \<rparr>"

fun generate_loop ::
  "venue_config \<Rightarrow> int \<Rightarrow> real \<Rightarrow> MarketConsensus list \<Rightarrow> TradingSignal list \<Rightarrow> exn + TradingSignal list" where
  "generate_loop cfg t threshold [] signals = Inr signals"
| "generate_loop cfg t threshold (consensus # rest) signals =
     (if mc_confidence consensus \<ge> threshold then
        (case calculate_position_size cfg consensus of
           Inl e \<Rightarrow> Inl e
         | Inr sz \<Rightarrow> generate_loop cfg t threshold rest (signals @ [make_signal t consensus sz]))
      else generate_loop cfg t threshold rest signals)"

text \<open>
  \<^verbatim>\<open>generate_signals\<close> returns the signals and stores them in
  \<^verbatim>\<open>self.trading_signals\<close>; a \<^verbatim>\<open>KeyError\<close> leaves the venue untouched.
\<close>

definition generate_signals ::
  "venue_env \<Rightarrow> venue \<Rightarrow> MarketConsensus list \<Rightarrow> exn + TradingSignal list \<times> venue" where
  "generate_signals env v consensus_data =
     (case config_trading (config v) ''execution_threshold'' execution_threshold of
        Inl e \<Rightarrow> Inl e
      | Inr threshold \<Rightarrow>
          (case generate_loop (config v) (clock env) threshold consensus_data [] of
             Inl e \<Rightarrow> Inl e
           | Inr signals \<Rightarrow> Inr (signals, v\<lparr>trading_signals := signals\<rparr>)))"

section \<open>The orchestrator: the cycle and the main loop\<close>

text \<open>
  \<^verbatim>\<open>coordinate_agents\<close> reads the required number of agents for every active market;
  \<^verbatim>\<open>deploy_agents_to_market\<close> and \<^verbatim>\<open>trigger_agent_predictions\<close> have the body
  \<^verbatim>\<open>pass\<close>, so the venue is not changed.
\<close>

fun coordinate_loop :: "venue_config \<Rightarrow> (string \<times> market) list \<Rightarrow> exn + unit" where
  "coordinate_loop cfg [] = Inr ()"
| "coordinate_loop cfg ((market_id, mkt) # rest) =
     (case config_agents cfg ''min_agents_per_market'' min_agents_per_market of
        Inl e \<Rightarrow> Inl e
      | Inr required_agents \<Rightarrow> coordinate_loop cfg rest)"

definition coordinate_agents :: "venue \<Rightarrow> exn + unit" where
  "coordinate_agents v = coordinate_loop (config v) (active_markets v)"

text \<open>
  \<^verbatim>\<open>execute_trades\<close>: every signal is handed to the execution engine inside its own
  \<^verbatim>\<open>try\<close>; the count of successes is only logged.
\<close>

fun execute_trades_loop :: "venue_env \<Rightarrow> TradingSignal list \<Rightarrow> int \<Rightarrow> int" where
  "execute_trades_loop env [] executed_count = executed_count"
| "execute_trades_loop env (signal # rest) executed_count =
     (case execute_signal env signal of
        Inl e \<Rightarrow> execute_trades_loop env rest executed_count
      | Inr success \<Rightarrow>
          execute_trades_loop env rest (if success then executed_count + 1 else executed_count))"

definition execute_trades :: "venue_env \<Rightarrow> TradingSignal list \<Rightarrow> int" where
  "execute_trades env signals = execute_trades_loop env signals 0"

definition update_metrics :: "venue_env \<Rightarrow> venue \<Rightarrow> exn \<times> venue + venue" where
  "update_metrics env v =
     (let stats = (v_stats v)
            \<lparr> stat_active_markets := Some (int (length (active_markets v))),
              stat_active_agents := Some (int (length (agent_pool v))),
              stat_pending_signals := Some (int (length (trading_signals v))),
              stat_last_update := Some (clock env) \<rparr>;
          v' = v\<lparr>v_stats := stats\<rparr>
      in case save_metrics env stats of
           Some e \<Rightarrow> Inl (e, v')
         | None \<Rightarrow> Inr v')"

datatype phase =
  ManageMarkets | CoordinateAgents | AggregateConsensus | GenerateSignals | ExecuteTrades | UpdateMetrics

definition cycle_phases :: "phase list" where
  "cycle_phases =
     [ManageMarkets, CoordinateAgents, AggregateConsensus, GenerateSignals, ExecuteTrades, UpdateMetrics]"

text \<open>
  \<^verbatim>\<open>run_venue_cycle\<close>: the six phases in sequence inside one \<^verbatim>\<open>try\<close>, whose handler
  logs and re-raises. The result is the list of the phases that were started and either the
  venue after the cycle or the exception together with the venue as it was left.
\<close>

definition run_venue_cycle :: "venue_env \<Rightarrow> venue \<Rightarrow> phase list \<times> (exn \<times> venue + venue)" where
  "run_venue_cycle env v =
     (case manage_markets env v of
        Inl (e, v1) \<Rightarrow> ([ManageMarkets], Inl (e, v1))
      | Inr v1 \<Rightarrow>
     (case coordinate_agents v1 of
        Inl e \<Rightarrow> ([ManageMarkets, CoordinateAgents], Inl (e, v1))
      | Inr u \<Rightarrow>
     (case aggregate_consensus env v1 of
        Inl e \<Rightarrow> ([ManageMarkets, CoordinateAgents, AggregateConsensus], Inl (e, v1))
      | Inr consensus_data \<Rightarrow>
     (case generate_signals env v1 consensus_data of
        Inl e \<Rightarrow> ([ManageMarkets, CoordinateAgents, AggregateConsensus, GenerateSignals], Inl (e, v1))
      | Inr (signals, v2) \<Rightarrow>
     (let executed_count = execute_trades env signals in
      case update_metrics env v2 of
        Inl (e, v3) \<Rightarrow> (cycle_phases, Inl (e, v3))
      | Inr v3 \<Rightarrow> (cycle_phases, Inr v3))))))"

text \<open>
  The loop of \<^verbatim>\<open>main\<close>. The source sleeps \<^verbatim>\<open>30 * 60\<close> seconds after a cycle that
  returned and \<^verbatim>\<open>60\<close> seconds in the handler of \<^verbatim>\<open>Exception\<close>; both are literals
  there, named here after the options of the specification. \<^verbatim>\<open>KeyboardInterrupt\<close> leaves
  the loop.
\<close>

definition cycle_interval_seconds :: int where
  "cycle_interval_seconds = 30 * 60"

definition error_backoff_seconds :: int where
  "error_backoff_seconds = 60"

datatype main_step = Break | Sleep "phase list" int venue

definition main_iteration :: "venue_env \<Rightarrow> venue \<Rightarrow> main_step" where
  "main_iteration env v =
     (if interrupted env then Break
      else
        (case run_venue_cycle env v of
           (started, Inr v') \<Rightarrow> Sleep started cycle_interval_seconds v'
         | (started, Inl (e, v')) \<Rightarrow> Sleep started error_backoff_seconds v'))"

text \<open>
  \<^verbatim>\<open>while True\<close>, unrolled for a given number of iterations; iteration \<open>i\<close> runs in
  the environment \<open>envs i\<close>. The result lists, per iteration, the phases started and the
  seconds slept.
\<close>

fun main_loop :: "nat \<Rightarrow> (nat \<Rightarrow> venue_env) \<Rightarrow> nat \<Rightarrow> venue \<Rightarrow> (phase list \<times> int) list" where
  "main_loop 0 envs i v = []"
| "main_loop (Suc n) envs i v =
     (case main_iteration (envs i) v of
        Break \<Rightarrow> []
      | Sleep started seconds v' \<Rightarrow> (started, seconds) # main_loop n envs (Suc i) v')"

section \<open>The bridge: configuration and state\<close>

text \<open>
  The trading configuration of the bridge (\<^verbatim>\<open>trading_config.json\<close>, or
  \<^verbatim>\<open>get_default_trading_config\<close>), with the keys the bridge reads.
\<close>

record risk_management_section =
  rm_max_position_size :: "real option"
  stop_loss :: "real option"
  take_profit :: "real option"

record portfolio_section =
  max_positions :: "int option"

record trading_config =
  risk_management :: "risk_management_section option"
  portfolio :: "portfolio_section option"

definition get_default_trading_config :: trading_config where
  "get_default_trading_config =
     \<lparr> risk_management =
         Some \<lparr> rm_max_position_size = Some 0.02, stop_loss = Some 0.015, take_profit = Some 0.03 \<rparr>,
       portfolio = Some \<lparr> max_positions = Some 5 \<rparr> \<rparr>"

text \<open>\<^verbatim>\<open>d.get(section, {}).get(key, default)\<close>\<close>

definition section_get :: "'s option \<Rightarrow> ('s \<Rightarrow> 'a option) \<Rightarrow> 'a \<Rightarrow> 'a" where
  "section_get sec field d = (case sec of None \<Rightarrow> d | Some s \<Rightarrow> get_or (field s) d)"

text \<open>
  A consensus as the bridge receives it: a dictionary whose keys may be missing
  (\<^verbatim>\<open>validate_consensus\<close> tests for them).
\<close>

record consensus =
  c_asset :: "string option"
  c_signal_strength :: "real option"
  c_confidence :: "real option"
  c_agent_count :: "int option"
  c_prediction_data :: "(string \<times> string) list option"

text \<open>
  The dictionary returned by \<^verbatim>\<open>assess_trade_risk\<close>. The reason is the message with the
  values it embeds; \<^verbatim>\<open>stop_loss\<close> and \<^verbatim>\<open>take_profit\<close> are keys of an approval only.
\<close>

datatype risk_reason =
  MaximumExposureReached int int
| PositionSizeExceedsLimit real real
| TradeApproved
| RiskAssessmentError exn

record risk_decision =
  approved :: bool
  reason :: risk_reason
  rd_stop_loss :: "real option"
  rd_take_profit :: "real option"

text \<open>
  The signal dictionary built by \<^verbatim>\<open>create_trading_signal\<close>. The id
  \<^verbatim>\<open>pred_{asset}_{timestamp}\<close> is kept as the pair it is formatted from, the reasoning
  text as the signal strength, confidence and agent count it embeds.
\<close>

record signal =
  sig_id :: "string \<times> int"
  sig_source :: string
  sig_timestamp :: int
  sig_trading_pair :: string
  sig_direction :: string
  sig_size :: real
  sig_confidence :: real
  sig_signal_strength :: real
  sig_entry_type :: string
  sig_stop_loss :: real
  sig_take_profit :: real
  sig_reasoning :: "real \<times> real \<times> int"
  sig_prediction_data :: consensus
  sig_expiry :: int

record trade_params =
  tp_symbol :: string
  tp_side :: string
  tp_size :: real
  tp_order_type :: string
  tp_stop_loss :: "real option"
  tp_take_profit :: "real option"
  tp_source :: string

text \<open>
  A value of the result dictionary of the back end, as far as the bridge computes with it: a
  number, \<^verbatim>\<open>None\<close>, or a string.
\<close>

datatype py_value = PyNum real | PyNone | PyStr string

text \<open>\<^verbatim>\<open>acc += v\<close> for a float \<^verbatim>\<open>acc\<close>: a \<^verbatim>\<open>TypeError\<close> unless \<^verbatim>\<open>v\<close> is a number.\<close>

definition add_value :: "real \<Rightarrow> py_value \<Rightarrow> exn + real" where
  "add_value acc v =
     (case v of
        PyNum x \<Rightarrow> Inr (acc + x)
      | PyNone \<Rightarrow> Inl (TypeError ''unsupported operand type(s) for +='')
      | PyStr t \<Rightarrow> Inl (TypeError ''unsupported operand type(s) for +=''))"

record engine_result =
  er_trade_id :: "string option"
  er_price :: "real option"
  er_volume :: "py_value option"

text \<open>
  The execution back end (\<^verbatim>\<open>self.trading_engine\<close>). \<open>orders\<close> is the list of the
  submissions it has received; \<open>respond\<close> is its answer to a submission, given the earlier
  ones: a result dictionary or a raise.
\<close>

record engine =
  orders :: "trade_params list"
  respond :: "trade_params list \<Rightarrow> trade_params \<Rightarrow> exn + engine_result"

definition execute_trade :: "engine \<Rightarrow> trade_params \<Rightarrow> (exn + engine_result) \<times> engine" where
  "execute_trade eng p = (respond eng (orders eng) p, eng\<lparr>orders := orders eng @ [p]\<rparr>)"

definition MockTradingEngine :: engine where
  "MockTradingEngine =
     \<lparr> orders = [],
       respond = (\<lambda>earlier p.
         Inr \<lparr> er_trade_id = Some ''mock'', er_price = Some 100.0,
               er_volume = Some (PyNum (tp_size p * 1000)) \<rparr>) \<rparr>"

text \<open>The dictionary returned by \<^verbatim>\<open>execute_single_trade\<close>; \<open>None\<close> is an absent key.\<close>

record trade_result =
  success :: bool
  trade_id :: "string option"
  executed_price :: "real option"
  volume :: "py_value option"
  error :: "exn option"
  tr_timestamp :: int

record trade_record =
  rec_id :: "string \<times> int"
  rec_prediction_data :: consensus
  execution_data :: trade_result
  opened_at :: int
  status :: string
  pnl :: real

record metrics =
  total_signals :: int
  executed_trades :: int
  profitable_trades :: int
  total_pnl :: real
  accuracy_rate :: real
  avg_hold_time :: real

record execution_results =
  successful :: int
  failed :: int
  total_volume :: real
  trades :: "trade_result list"

text \<open>The instance state of \<^verbatim>\<open>PredictionTradingBridge\<close>.\<close>

record bridge =
  bridge_venue_config :: venue_config
  bridge_trading_config :: trading_config
  trading_engine :: engine
  prediction_trades :: "trade_record list"
  performance_metrics :: metrics

definition init_bridge :: "venue_config \<Rightarrow> trading_config \<Rightarrow> engine \<Rightarrow> bridge" where
  "init_bridge vc tc eng =
     \<lparr> bridge_venue_config = vc,
       bridge_trading_config = tc,
       trading_engine = eng,
       prediction_trades = [],
       performance_metrics =
         \<lparr> total_signals = 0, executed_trades = 0, profitable_trades = 0,
           total_pnl = 0.0, accuracy_rate = 0.0, avg_hold_time = 0.0 \<rparr> \<rparr>"

text \<open>
  The collaborators of the bridge: the exposure lookup (in the source a mock that returns
  \<^verbatim>\<open>0\<close>) and the clock.
\<close>

record bridge_env =
  get_current_exposure :: "string \<Rightarrow> exn + int"
  bridge_clock :: int

definition mock_bridge_env :: "int \<Rightarrow> bridge_env" where
  "mock_bridge_env t = \<lparr> get_current_exposure = (\<lambda>trading_pair. Inr 0), bridge_clock = t \<rparr>"

section \<open>The bridge: validation, sizing and risk assessment\<close>

definition validate_consensus :: "bridge \<Rightarrow> consensus \<Rightarrow> bool" where
  "validate_consensus b c =
     (case (c_asset c, c_signal_strength c, c_confidence c, c_agent_count c) of
        (Some asset, Some signal_strength, Some confidence, Some agent_count) \<Rightarrow>
          (let min_confidence =
                 section_get (trading (bridge_venue_config b)) execution_threshold 0.7
           in if confidence < min_confidence then False
              else
                (let min_agents =
                       section_get (agents (bridge_venue_config b)) min_agents_per_market 3
                 in if agent_count < min_agents then False else True))
      | _ \<Rightarrow> False)"

definition upper_char :: "char \<Rightarrow> char" where
  "upper_char c =
     (let n = (of_char c :: nat) in if 97 \<le> n \<and> n \<le> 122 then char_of (n - 32) else c)"

definition upper :: "string \<Rightarrow> string" where
  "upper s = map upper_char s"

definition asset_mapping :: "(string \<times> string) list" where
  "asset_mapping =
     [(''BTC'', ''BTC-USDT''), (''ETH'', ''ETH-USDT''), (''SOL'', ''SOL-USDT''),
      (''ARB'', ''ARB-USDT''), (''AVAX'', ''AVAX-USDT'')]"

definition map_asset_to_pair :: "string \<Rightarrow> string option" where
  "map_asset_to_pair asset = map_of asset_mapping (upper asset)"

text \<open>\<^verbatim>\<open>PredictionTradingBridge.calculate_position_size\<close>: the product, bounded below and above.\<close>

definition bridge_calculate_position_size :: "bridge \<Rightarrow> real \<Rightarrow> real \<Rightarrow> real" where
  "bridge_calculate_position_size b signal_strength confidence =
     (let base_size = section_get (trading (bridge_venue_config b)) max_position_size 0.025;
          strength_factor = \<bar>signal_strength\<bar>;
          confidence_factor = confidence;
          position_size = base_size * strength_factor * confidence_factor;
          min_size = base_size * 0.25;
          max_size = base_size * 1.0
      in max min_size (min position_size max_size))"

text \<open>The body of the \<^verbatim>\<open>try\<close> of \<^verbatim>\<open>assess_trade_risk\<close>.\<close>

definition try_assess_trade_risk ::
  "bridge_env \<Rightarrow> bridge \<Rightarrow> string \<Rightarrow> string \<Rightarrow> real \<Rightarrow> exn + risk_decision" where
  "try_assess_trade_risk env b trading_pair direction sz =
     (case get_current_exposure env trading_pair of
        Inl e \<Rightarrow> Inl e
      | Inr current_exposure \<Rightarrow>
          (let max_exposure = section_get (portfolio (bridge_trading_config b)) max_positions 5 in
           if current_exposure \<ge> max_exposure then
             Inr \<lparr> approved = False,
                   reason = MaximumExposureReached current_exposure max_exposure,
                   rd_stop_loss = None, rd_take_profit = None \<rparr>
           else
             (let max_position =
                    section_get (risk_management (bridge_trading_config b)) rm_max_position_size 0.02 in
              if sz > max_position then
                Inr \<lparr> approved = False,
                      reason = PositionSizeExceedsLimit sz max_position,
                      rd_stop_loss = None, rd_take_profit = None \<rparr>
              else
                (let stop_loss_pct =
                       section_get (risk_management (bridge_trading_config b)) stop_loss 0.015;
                     take_profit_pct =
                       section_get (risk_management (bridge_trading_config b)) take_profit 0.03
                 in Inr \<lparr> approved = True,
                          reason = TradeApproved,
                          rd_stop_loss = Some stop_loss_pct,
                          rd_take_profit = Some take_profit_pct \<rparr>))))"

text \<open>
  \<^verbatim>\<open>assess_trade_risk\<close>: the \<^verbatim>\<open>try\<close> with its handler. The method assigns to no
  attribute of the bridge; the bridge after the call is returned beside the decision.
\<close>

definition assess_trade_risk ::
  "bridge_env \<Rightarrow> bridge \<Rightarrow> string \<Rightarrow> string \<Rightarrow> real \<Rightarrow> risk_decision \<times> bridge" where
  "assess_trade_risk env b trading_pair direction sz =
     (case try_assess_trade_risk env b trading_pair direction sz of
        Inr decision \<Rightarrow> (decision, b)
      | Inl e \<Rightarrow>
          (\<lparr> approved = False, reason = RiskAssessmentError e,
             rd_stop_loss = None, rd_take_profit = None \<rparr>, b))"

section \<open>The bridge: signal creation\<close>

text \<open>
  The dictionary literal at the end of \<^verbatim>\<open>create_trading_signal\<close>, with the three
  subscripts it evaluates (\<^verbatim>\<open>risk_assessment['stop_loss']\<close>,
  \<^verbatim>\<open>risk_assessment['take_profit']\<close>, \<^verbatim>\<open>consensus['agent_count']\<close>).
\<close>

definition signal_dict ::
  "bridge_env \<Rightarrow> consensus \<Rightarrow> string \<Rightarrow> real \<Rightarrow> real \<Rightarrow> string \<Rightarrow> string \<Rightarrow> real \<Rightarrow> risk_decision
     \<Rightarrow> exn + signal" where
  "signal_dict env c asset signal_strength confidence trading_pair direction position_size
     risk_assessment =
     (case subscript ''stop_loss'' (rd_stop_loss risk_assessment) of
        Inl e \<Rightarrow> Inl e
      | Inr sl \<Rightarrow>
     (case subscript ''take_profit'' (rd_take_profit risk_assessment) of
        Inl e \<Rightarrow> Inl e
      | Inr tp \<Rightarrow>
     (case subscript ''agent_count'' (c_agent_count c) of
        Inl e \<Rightarrow> Inl e
      | Inr agent_count \<Rightarrow>
          Inr \<lparr> sig_id = (asset, bridge_clock env),
                sig_source = ''prediction_venue'',
                sig_timestamp = bridge_clock env,
                sig_trading_pair = trading_pair,
                sig_direction = direction,
                sig_size = position_size,
                sig_confidence = confidence,
                sig_signal_strength = \<bar>signal_strength\<bar>,
                sig_entry_type = ''market'',
                sig_stop_loss = sl,
                sig_take_profit = tp,
                sig_reasoning = (signal_strength, confidence, agent_count),
                sig_prediction_data = c,
                sig_expiry = bridge_clock env + 24 * 3600 \<rparr>)))"

text \<open>
  \<^verbatim>\<open>create_trading_signal\<close>. Subscripting a missing key of the consensus raises; the
  caller \<^verbatim>\<open>process_prediction_signals\<close> validates first and catches the rest.
\<close>

definition create_trading_signal ::
  "bridge_env \<Rightarrow> bridge \<Rightarrow> consensus \<Rightarrow> (exn + signal option) \<times> bridge" where
  "create_trading_signal env b c =
     (case subscript ''asset'' (c_asset c) of
        Inl e \<Rightarrow> (Inl e, b)
      | Inr asset \<Rightarrow>
     (case subscript ''signal_strength'' (c_signal_strength c) of
        Inl e \<Rightarrow> (Inl e, b)
      | Inr signal_strength \<Rightarrow>
     (case subscript ''confidence'' (c_confidence c) of
        Inl e \<Rightarrow> (Inl e, b)
      | Inr confidence \<Rightarrow>
     (case map_asset_to_pair asset of
        None \<Rightarrow> (Inr None, b)
      | Some trading_pair \<Rightarrow>
     (let direction = (if signal_strength > 0 then ''long'' else ''short'');
          position_size = bridge_calculate_position_size b signal_strength confidence
      in case assess_trade_risk env b trading_pair direction position_size of
           (risk_assessment, b') \<Rightarrow>
             if \<not> approved risk_assessment then (Inr None, b')
             else
               (case signal_dict env c asset signal_strength confidence trading_pair direction
                       position_size risk_assessment of
                  Inl e \<Rightarrow> (Inl e, b')
                | Inr sg \<Rightarrow> (Inr (Some sg), b')))))))"

text \<open>
  The loop of \<^verbatim>\<open>process_prediction_signals\<close>: a consensus that fails validation is
  skipped, an exception of the creation is logged and the loop goes on.
\<close>

fun process_loop ::
  "bridge_env \<Rightarrow> bridge \<Rightarrow> consensus list \<Rightarrow> signal list \<Rightarrow> signal list \<times> bridge" where
  "process_loop env b [] signals = (signals, b)"
| "process_loop env b (c # rest) signals =
     (if \<not> validate_consensus b c then process_loop env b rest signals
      else
        (case create_trading_signal env b c of
           (Inl e, b') \<Rightarrow> process_loop env b' rest signals
         | (Inr None, b') \<Rightarrow> process_loop env b' rest signals
         | (Inr (Some sg), b') \<Rightarrow> process_loop env b' rest (signals @ [sg])))"

definition process_prediction_signals ::
  "bridge_env \<Rightarrow> bridge \<Rightarrow> consensus list \<Rightarrow> signal list \<times> bridge" where
  "process_prediction_signals env b consensus_data = process_loop env b consensus_data []"

section \<open>The bridge: execution and performance metrics\<close>

text \<open>The trade parameters that \<^verbatim>\<open>execute_single_trade\<close> prepares from a signal.\<close>

definition trade_params_of :: "signal \<Rightarrow> trade_params" where
  "trade_params_of sg =
     \<lparr> tp_symbol = sig_trading_pair sg,
       tp_side = sig_direction sg,
       tp_size = sig_size sg,
       tp_order_type = sig_entry_type sg,
       tp_stop_loss = Some (sig_stop_loss sg),
       tp_take_profit = Some (sig_take_profit sg),
       tp_source = ''prediction_venue'' \<rparr>"

definition execute_single_trade :: "bridge_env \<Rightarrow> bridge \<Rightarrow> signal \<Rightarrow> trade_result \<times> bridge" where
  "execute_single_trade env b sg =
     (let params = trade_params_of sg
      in case execute_trade (trading_engine b) params of
           (Inr result, eng) \<Rightarrow>
             (\<lparr> success = True,
                trade_id = er_trade_id result,
                executed_price = er_price result,
                volume = Some (get_or (er_volume result) (PyNum 0)),
                error = None,
                tr_timestamp = bridge_clock env \<rparr>, b\<lparr>trading_engine := eng\<rparr>)
         | (Inl e, eng) \<Rightarrow>
             (\<lparr> success = False,
                trade_id = None,
                executed_price = None,
                volume = None,
                error = Some e,
                tr_timestamp = bridge_clock env \<rparr>, b\<lparr>trading_engine := eng\<rparr>))"

definition track_prediction_trade :: "bridge_env \<Rightarrow> bridge \<Rightarrow> signal \<Rightarrow> trade_result \<Rightarrow> bridge" where
  "track_prediction_trade env b sg execution_result =
     (let trade_record = \<lparr> rec_id = sig_id sg,
                            rec_prediction_data = sig_prediction_data sg,
                            execution_data = execution_result,
                            opened_at = bridge_clock env,
                            status = ''open'',
                            pnl = 0.0 \<rparr>
      in b\<lparr>prediction_trades := prediction_trades b @ [trade_record]\<rparr>)"

definition update_performance_metrics :: "bridge \<Rightarrow> execution_results \<Rightarrow> bridge" where
  "update_performance_metrics b results =
     (let m = performance_metrics b;
          m1 = m\<lparr>total_signals := total_signals m + int (length (trades results))\<rparr>;
          m2 = m1\<lparr>executed_trades := executed_trades m1 + successful results\<rparr>;
          m3 = (if total_signals m2 > 0
                then m2\<lparr>accuracy_rate := real_of_int (executed_trades m2) / real_of_int (total_signals m2)\<rparr>
                else m2)
      in b\<lparr>performance_metrics := m3\<rparr>)"

text \<open>
  The loop of \<^verbatim>\<open>execute_prediction_trades\<close>, each signal inside its own
  \<^verbatim>\<open>try\<close>. \<^verbatim>\<open>execute_single_trade\<close> returns a result for every signal (its own
  handler turns a raise of the back end into \<^verbatim>\<open>success: False\<close>). For a successful
  result the source first increments \<^verbatim>\<open>successful\<close> and then adds the volume of the
  result to \<^verbatim>\<open>total_volume\<close>; when that addition raises, the handler
  \<^verbatim>\<open>except Exception\<close> of the loop increments \<^verbatim>\<open>failed\<close>, the result is not
  appended to \<^verbatim>\<open>trades\<close> and the trade is not tracked.
\<close>

fun execute_loop ::
  "bridge_env \<Rightarrow> bridge \<Rightarrow> signal list \<Rightarrow> execution_results \<Rightarrow> execution_results \<times> bridge" where
  "execute_loop env b [] results = (results, b)"
| "execute_loop env b (sg # rest) results =
     (case execute_single_trade env b sg of
        (result, b1) \<Rightarrow>
          if success result then
            (let results1 = results\<lparr> successful := successful results + 1 \<rparr> in
             case add_value (total_volume results1) (get_or (volume result) (PyNum 0)) of
               Inl e \<Rightarrow>
                 execute_loop env b1 rest (results1\<lparr> failed := failed results1 + 1 \<rparr>)
             | Inr new_volume \<Rightarrow>
                 execute_loop env (track_prediction_trade env b1 sg result) rest
                   (results1\<lparr> total_volume := new_volume,
                              trades := trades results1 @ [result] \<rparr>))
          else
            execute_loop env b1 rest (results\<lparr> failed := failed results + 1 \<rparr>))"

definition execute_prediction_trades ::
  "bridge_env \<Rightarrow> bridge \<Rightarrow> signal list \<Rightarrow> execution_results \<times> bridge" where
  "execute_prediction_trades env b signals =
     (case execute_loop env b signals
             \<lparr> successful = 0, failed = 0, total_volume = 0.0, trades = [] \<rparr> of
        (results, b1) \<Rightarrow> (results, update_performance_metrics b1 results))"

section \<open>The quantities of the specification and the example inputs\<close>

text \<open>
  The predictions that \<^verbatim>\<open>calculate_crypto_consensus\<close> retrieves for a list of
  participants, each with the reputation weight of its agent, and the sums
  \<open>\<Sum> weight\<close> and \<open>\<Sum> f * weight\<close> over them, as the specification writes the
  aggregation.
\<close>

fun retrieved :: "venue_env \<Rightarrow> string \<Rightarrow> string list \<Rightarrow> (agent_prediction \<times> real) list" where
  "retrieved env mid [] = []"
| "retrieved env mid (agent_id # rest) =
     (case get_agent_prediction env agent_id mid of
        None \<Rightarrow> retrieved env mid rest
      | Some p \<Rightarrow> (p, get_agent_reputation_weight env agent_id) # retrieved env mid rest)"

definition weight_sum :: "(agent_prediction \<times> real) list \<Rightarrow> real" where
  "weight_sum preds = sum_list (map snd preds)"

definition weighted_sum :: "(agent_prediction \<Rightarrow> real) \<Rightarrow> (agent_prediction \<times> real) list \<Rightarrow> real" where
  "weighted_sum f preds = sum_list (map (\<lambda>(p, w). f p * w) preds)"


definition retrieved_predictions :: "venue_env \<Rightarrow> market \<Rightarrow> (agent_prediction \<times> real) list" where
  "retrieved_predictions env mkt = retrieved env (m_id mkt) (m_participants mkt)"

text \<open>
  The example of the specification: three agents predict BTC with
  (signal, confidence, weight) = (0.73, 0.85, 0.85), (0.68, 0.78, 0.72), (0.82, 0.71, 0.68);
  every other agent has no prediction.
\<close>

definition example_env :: venue_env where
  "example_env =
     \<lparr> get_agent_prediction = (\<lambda>agent_id market_id.
         if agent_id = ''agent_1'' then Some \<lparr> p_signal = 0.73, p_confidence = 0.85 \<rparr>
         else if agent_id = ''agent_2'' then Some \<lparr> p_signal = 0.68, p_confidence = 0.78 \<rparr>
         else if agent_id = ''agent_3'' then Some \<lparr> p_signal = 0.82, p_confidence = 0.71 \<rparr>
         else None),
       get_agent_reputation_weight = (\<lambda>agent_id.
         if agent_id = ''agent_1'' then 0.85
         else if agent_id = ''agent_2'' then 0.72
         else if agent_id = ''agent_3'' then 0.68
         else 1.0),
       execute_signal = (\<lambda>signal. Inr True),
       manage_markets = (\<lambda>v. Inr v),
       save_metrics = (\<lambda>stats. None),
       clock = 0,
       interrupted = False \<rparr>"

definition example_market :: "string list \<Rightarrow> market" where
  "example_market agent_ids =
     \<lparr> m_id = ''crypto_BTC_0'', m_type = ''crypto_price'', m_asset = ''BTC'',
       m_participants = agent_ids \<rparr>"


definition example_venue :: "venue_config \<Rightarrow> (string \<times> market) list \<Rightarrow> venue" where
  "example_venue cfg markets =
     \<lparr> config = cfg,
       active_markets = markets,
       agent_pool = [],
       trading_signals = [],
       v_stats = \<lparr> total_markets_created = 0, total_predictions = 0, vs_total_volume = 0.0,
                   vs_accuracy_rate = 0.0, stat_active_markets = None, stat_active_agents = None,
                   stat_pending_signals = None, stat_last_update = None \<rparr> \<rparr>"

text \<open>A consensus that clears the default threshold with a weak signal.\<close>

definition weak_consensus :: MarketConsensus where
  "weak_consensus =
     \<lparr> mc_asset = ''BTC'', mc_signal_strength = 0.3, mc_confidence = 0.7, mc_agent_count = 3,
       mc_prediction_data = example_market [''agent_1'', ''agent_2'', ''agent_3''],
       mc_timestamp = 0 \<rparr>"

text \<open>A configuration file without the \<^verbatim>\<open>agents\<close> section.\<close>

definition no_agents_config :: venue_config where
  "no_agents_config =
     \<lparr> trading = Some \<lparr> execution_threshold = Some 0.70, max_position_size = Some 0.025 \<rparr>,
       agents = None \<rparr>"

text \<open>
  The two consensus dictionaries of the bridge's \<^verbatim>\<open>main\<close>, and a back end that raises
  for one symbol and answers every other submission as \<^verbatim>\<open>MockTradingEngine\<close> does.
\<close>

definition btc_consensus :: consensus where
  "btc_consensus =
     \<lparr> c_asset = Some ''BTC'', c_signal_strength = Some 0.75, c_confidence = Some 0.82,
       c_agent_count = Some 5,
       c_prediction_data = Some [(''question'', ''Will BTC be above $100k by March 2025?''),
                                 (''consensus'', ''bullish'')] \<rparr>"

definition eth_consensus :: consensus where
  "eth_consensus =
     \<lparr> c_asset = Some ''ETH'', c_signal_strength = Some (- 0.45), c_confidence = Some 0.73,
       c_agent_count = Some 4,
       c_prediction_data = Some [(''question'', ''Will ETH outperform BTC this month?''),
                                 (''consensus'', ''bearish'')] \<rparr>"

definition mock_consensus :: "consensus list" where
  "mock_consensus = [btc_consensus, eth_consensus]"

text \<open>The signals the bridge creates from them at time 0 with the default configurations.\<close>

definition eth_signal :: signal where
  "eth_signal =
     \<lparr> sig_id = (''ETH'', 0), sig_source = ''prediction_venue'',
       sig_timestamp = 0, sig_trading_pair = ''ETH-USDT'',
       sig_direction = ''short'', sig_size = 657 / 80000,
       sig_confidence = 73 / 100, sig_signal_strength = 9 / 20,
       sig_entry_type = ''market'', sig_stop_loss = 3 / 200,
       sig_take_profit = 3 / 100, sig_reasoning = (- (9 / 20), 73 / 100, 4),
       sig_prediction_data = eth_consensus, sig_expiry = 86400 \<rparr>"

definition btc_signal :: signal where
  "btc_signal =
     \<lparr> sig_id = (''BTC'', 0), sig_source = ''prediction_venue'',
       sig_timestamp = 0, sig_trading_pair = ''BTC-USDT'',
       sig_direction = ''long'', sig_size = 123 / 8000,
       sig_confidence = 41 / 50, sig_signal_strength = 3 / 4,
       sig_entry_type = ''market'', sig_stop_loss = 3 / 200,
       sig_take_profit = 3 / 100, sig_reasoning = (3 / 4, 41 / 50, 5),
       sig_prediction_data = btc_consensus, sig_expiry = 86400 \<rparr>"

definition rejecting_engine :: "string \<Rightarrow> engine" where
  "rejecting_engine symbol =
     \<lparr> orders = [],
       respond = (\<lambda>earlier p.
         if tp_symbol p = symbol then Inl (Error ''order rejected'')
         else Inr \<lparr> er_trade_id = Some ''mock'', er_price = Some 100.0,
                   er_volume = Some (PyNum (tp_size p * 1000)) \<rparr>) \<rparr>"

text \<open>
  A back end that executes every order and answers with \<^verbatim>\<open>'volume': None\<close> for one
  symbol, and as \<^verbatim>\<open>MockTradingEngine\<close> does for every other.
\<close>

definition none_volume_engine :: "string \<Rightarrow> engine" where
  "none_volume_engine symbol =
     \<lparr> orders = [],
       respond = (\<lambda>earlier p.
         Inr \<lparr> er_trade_id = Some ''mock'', er_price = Some 100.0,
               er_volume = (if tp_symbol p = symbol then Some PyNone
                            else Some (PyNum (tp_size p * 1000))) \<rparr>) \<rparr>"

text \<open>
  A configuration file without the \<^verbatim>\<open>trading\<close> section, an environment whose market
  management raises, and one whose metrics file cannot be written.
\<close>

definition no_trading_config :: venue_config where
  "no_trading_config =
     \<lparr> trading = None, agents = Some \<lparr> min_agents_per_market = Some 3 \<rparr> \<rparr>"

definition failing_markets_env :: venue_env where
  "failing_markets_env =
     example_env\<lparr> manage_markets := (\<lambda>v. Inl (Error ''price feed unavailable'', v)) \<rparr>"

definition failing_save_env :: venue_env where
  "failing_save_env =
     example_env\<lparr> save_metrics := (\<lambda>stats. Some (Error ''cannot write metrics file'')) \<rparr>"

definition example_bridge :: "engine \<Rightarrow> bridge" where
  "example_bridge eng = init_bridge get_default_config get_default_trading_config eng"

definition exposure_env :: "(string \<Rightarrow> exn + int) \<Rightarrow> bridge_env" where
  "exposure_env f = \<lparr> get_current_exposure = f, bridge_clock = 0 \<rparr>"

text \<open>
  The signal, if any, that \<^verbatim>\<open>process_prediction_signals\<close> appends for one consensus: the
  consensus passes validation and \<^verbatim>\<open>create_trading_signal\<close> returns a signal.
\<close>

definition signal_of :: "bridge_env \<Rightarrow> bridge \<Rightarrow> consensus \<Rightarrow> signal option" where
  "signal_of env b c =
     (if validate_consensus b c
      then (case fst (create_trading_signal env b c) of Inr (Some sg) \<Rightarrow> Some sg | _ \<Rightarrow> None)
      else None)"

section \<open>Consensus aggregation\<close>

lemma consensus_loop_sums:
  "consensus_loop env mid ps (tw, ws, cs) =
     (tw + weight_sum (retrieved env mid ps),
      ws + weighted_sum p_signal (retrieved env mid ps),
      cs + weighted_sum p_confidence (retrieved env mid ps))"
  by (induction ps arbitrary: tw ws cs)
     (auto simp: weight_sum_def weighted_sum_def Let_def split: option.splits)

lemma weighted_sum_upper:
  "\<forall>x\<in>set preds. 0 \<le> snd x \<and> f (fst x) \<le> hi \<Longrightarrow> weighted_sum f preds \<le> hi * weight_sum preds"
proof (induction preds)
  case Nil
  then show ?case by (simp add: weighted_sum_def weight_sum_def)
next
  case (Cons a preds)
  have 1: "f (fst a) * snd a \<le> hi * snd a" using Cons.prems by (simp add: mult_right_mono)
  have 2: "weighted_sum f preds \<le> hi * weight_sum preds"
    using Cons by simp
  show ?case using 1 2 by (simp add: weighted_sum_def weight_sum_def algebra_simps split_beta)
qed

lemma weighted_sum_lower:
  "\<forall>x\<in>set preds. 0 \<le> snd x \<and> lo \<le> f (fst x) \<Longrightarrow> lo * weight_sum preds \<le> weighted_sum f preds"
proof (induction preds)
  case Nil
  then show ?case by (simp add: weighted_sum_def weight_sum_def)
next
  case (Cons a preds)
  have 1: "lo * snd a \<le> f (fst a) * snd a" using Cons.prems by (simp add: mult_right_mono)
  have 2: "lo * weight_sum preds \<le> weighted_sum f preds"
    using Cons by simp
  show ?case using 1 2 by (simp add: weighted_sum_def weight_sum_def algebra_simps split_beta)
qed

lemma weighted_mean_bounds:
  assumes "\<forall>x\<in>set preds. 0 \<le> snd x \<and> lo \<le> f (fst x) \<and> f (fst x) \<le> hi"
    and "0 < weight_sum preds"
  shows "lo \<le> weighted_sum f preds / weight_sum preds \<and> weighted_sum f preds / weight_sum preds \<le> hi"
proof -
  have u: "weighted_sum f preds \<le> hi * weight_sum preds"
    using assms(1) by (intro weighted_sum_upper) simp
  have l: "lo * weight_sum preds \<le> weighted_sum f preds"
    using assms(1) by (intro weighted_sum_lower) simp
  show ?thesis using u l assms(2) by (simp add: pos_le_divide_eq pos_divide_le_eq)
qed

lemma calc_eq:
  "calculate_crypto_consensus env mkt =
    (if length (m_participants mkt) < 2 then Inr None
     else if weight_sum (retrieved env (m_id mkt) (m_participants mkt)) = 0 then Inr None
     else Inr (Some \<lparr> mc_asset = m_asset mkt,
                 mc_signal_strength = weighted_sum p_signal (retrieved env (m_id mkt) (m_participants mkt)) / weight_sum (retrieved env (m_id mkt) (m_participants mkt)),
                 mc_confidence = weighted_sum p_confidence (retrieved env (m_id mkt) (m_participants mkt)) / weight_sum (retrieved env (m_id mkt) (m_participants mkt)),
                 mc_agent_count = int (length (m_participants mkt)),
                 mc_prediction_data = mkt,
                 mc_timestamp = clock env \<rparr>))"
  by (simp add: calculate_crypto_consensus_def consensus_loop_sums truediv_def Let_def)

text \<open>
  Claim C3, as amended. For a market with at least two participants: when the total weight of
  the retrieved predictions is not zero (in particular when it is positive),
  \<^verbatim>\<open>calculate_crypto_consensus\<close> returns a consensus whose signal strength is
  \<open>\<Sum> signal * weight / \<Sum> weight\<close> and whose confidence is
  \<open>\<Sum> confidence * weight / \<Sum> weight\<close>; when moreover the total weight is positive,
  the weights are non-negative, the signals lie in \<open>[-1, 1]\<close> and the confidences in
  \<open>[0, 1]\<close>, so do the aggregates. When the total weight is zero it returns no consensus,
  and no division is attempted (the result is not a raise).
\<close>

theorem consensus_weighted_mean:
  assumes "2 \<le> length (m_participants mkt)"
  shows
    "(weight_sum (retrieved_predictions env mkt) \<noteq> 0 \<longrightarrow>
        (\<exists>c. calculate_crypto_consensus env mkt = Inr (Some c)
           \<and> mc_signal_strength c =
               weighted_sum p_signal (retrieved_predictions env mkt) / weight_sum (retrieved_predictions env mkt)
           \<and> mc_confidence c =
               weighted_sum p_confidence (retrieved_predictions env mkt) / weight_sum (retrieved_predictions env mkt)
           \<and> (0 < weight_sum (retrieved_predictions env mkt)
                \<and> (\<forall>x\<in>set (retrieved_predictions env mkt).
                      0 \<le> snd x \<and> - 1 \<le> p_signal (fst x) \<and> p_signal (fst x) \<le> 1
                      \<and> 0 \<le> p_confidence (fst x) \<and> p_confidence (fst x) \<le> 1)
              \<longrightarrow> - 1 \<le> mc_signal_strength c \<and> mc_signal_strength c \<le> 1
                  \<and> 0 \<le> mc_confidence c \<and> mc_confidence c \<le> 1)))
     \<and> (weight_sum (retrieved_predictions env mkt) = 0 \<longrightarrow>
          calculate_crypto_consensus env mkt = Inr None)"
proof -
  let ?ps = "retrieved_predictions env mkt"
  have eq: "calculate_crypto_consensus env mkt =
      (if weight_sum ?ps = 0 then Inr None
       else Inr (Some \<lparr> mc_asset = m_asset mkt,
                 mc_signal_strength = weighted_sum p_signal ?ps / weight_sum ?ps,
                 mc_confidence = weighted_sum p_confidence ?ps / weight_sum ?ps,
                 mc_agent_count = int (length (m_participants mkt)),
                 mc_prediction_data = mkt,
                 mc_timestamp = clock env \<rparr>))"
    using assms by (simp add: calc_eq retrieved_predictions_def)
  have bounds: "- 1 \<le> weighted_sum p_signal ?ps / weight_sum ?ps
       \<and> weighted_sum p_signal ?ps / weight_sum ?ps \<le> 1
       \<and> 0 \<le> weighted_sum p_confidence ?ps / weight_sum ?ps
       \<and> weighted_sum p_confidence ?ps / weight_sum ?ps \<le> 1"
    if pos: "0 < weight_sum ?ps"
      and rng: "\<forall>x\<in>set ?ps. 0 \<le> snd x \<and> - 1 \<le> p_signal (fst x) \<and> p_signal (fst x) \<le> 1
                      \<and> 0 \<le> p_confidence (fst x) \<and> p_confidence (fst x) \<le> 1"
  proof -
    have s: "\<forall>x\<in>set ?ps. 0 \<le> snd x \<and> - 1 \<le> p_signal (fst x) \<and> p_signal (fst x) \<le> 1"
      using rng by simp
    have c: "\<forall>x\<in>set ?ps. 0 \<le> snd x \<and> 0 \<le> p_confidence (fst x) \<and> p_confidence (fst x) \<le> 1"
      using rng by simp
    show ?thesis
      using weighted_mean_bounds[OF s pos] weighted_mean_bounds[OF c pos] by simp
  qed
  show ?thesis
    using eq bounds by auto
qed

lemma ex_retrieved3:
  "retrieved_predictions example_env (example_market [''agent_1'', ''agent_2'', ''agent_3'']) =
     [(\<lparr> p_signal = 0.73, p_confidence = 0.85 \<rparr>, 0.85),
      (\<lparr> p_signal = 0.68, p_confidence = 0.78 \<rparr>, 0.72),
      (\<lparr> p_signal = 0.82, p_confidence = 0.71 \<rparr>, 0.68)]"
  by (simp add: retrieved_predictions_def example_env_def example_market_def)

text \<open>The example of the specification: the aggregates are 16677/22500 and 17669/22500.\<close>

theorem consensus_weighted_mean_witness:
  "2 \<le> length (m_participants (example_market [''agent_1'', ''agent_2'', ''agent_3'']))
   \<and> (\<exists>c. calculate_crypto_consensus example_env (example_market [''agent_1'', ''agent_2'', ''agent_3''])
            = Inr (Some c)
         \<and> mc_signal_strength c = 16677 / 22500
         \<and> mc_confidence c = 17669 / 22500
         \<and> - 1 \<le> mc_signal_strength c \<and> mc_signal_strength c \<le> 1
         \<and> 0 \<le> mc_confidence c \<and> mc_confidence c \<le> 1)"
proof -
  have len: "2 \<le> length (m_participants (example_market [''agent_1'', ''agent_2'', ''agent_3'']))"
    by (simp add: example_market_def)
  show ?thesis
    using len consensus_weighted_mean[OF len, of example_env]
    by (simp add: ex_retrieved3 weight_sum_def weighted_sum_def)
qed

text \<open>
  Claim C3 as stated fails for a market with a single participant: the total weight of its
  prediction is positive, and the guard on the number of participants returns no consensus.
\<close>

theorem single_participant_counterexample:
  "0 < weight_sum (retrieved_predictions example_env (example_market [''agent_1'']))
   \<and> calculate_crypto_consensus example_env (example_market [''agent_1'']) = Inr None"
  by (simp add: retrieved_predictions_def example_env_def example_market_def weight_sum_def
      calculate_crypto_consensus_def)

lemma calc_Some:
  "calculate_crypto_consensus env mkt = Inr (Some c) \<Longrightarrow>
     mc_prediction_data c = mkt \<and> 2 \<le> length (m_participants mkt)"
  by (auto simp: calc_eq split: if_splits)

lemma aggregate_loop_sources:
  "aggregate_loop env ms acc = Inr cs \<Longrightarrow>
     \<forall>c\<in>set cs. c \<in> set acc \<or>
        ((\<exists>k. (k, mc_prediction_data c) \<in> set ms) \<and> 2 \<le> length (m_participants (mc_prediction_data c)))"
proof (induction ms arbitrary: acc)
  case Nil
  then show ?case by simp
next
  case (Cons a ms)
  obtain k mkt where a: "a = (k, mkt)" by (cases a)
  show ?case
  proof (cases "m_type mkt = ''crypto_price''")
    case False
    then have "aggregate_loop env ms acc = Inr cs" using Cons.prems a by simp
    from Cons.IH[OF this] show ?thesis by auto
  next
    case True
    show ?thesis
    proof (cases "calculate_crypto_consensus env mkt")
      case (Inl e)
      then show ?thesis using Cons.prems a True by simp
    next
      case (Inr r)
      show ?thesis
      proof (cases r)
        case None
        then have "aggregate_loop env ms acc = Inr cs" using Cons.prems a True Inr by simp
        from Cons.IH[OF this] show ?thesis by auto
      next
        case (Some c0)
        then have "aggregate_loop env ms (acc @ [c0]) = Inr cs" using Cons.prems a True Inr by simp
        from Cons.IH[OF this] calc_Some[of env mkt c0] Inr Some a show ?thesis by auto
      qed
    qed
  qed
qed

lemma generate_loop_sources:
  "generate_loop cfg t thr cs acc = Inr sigs \<Longrightarrow>
     \<forall>s\<in>set sigs. s \<in> set acc \<or> (\<exists>c\<in>set cs. \<exists>sz. s = make_signal t c sz)"
proof (induction cs arbitrary: acc)
  case Nil
  then show ?case by simp
next
  case (Cons c cs)
  show ?case
  proof (cases "thr \<le> mc_confidence c")
    case False
    then have "generate_loop cfg t thr cs acc = Inr sigs" using Cons.prems by simp
    from Cons.IH[OF this] show ?thesis by auto
  next
    case True
    show ?thesis
    proof (cases "calculate_position_size cfg c")
      case (Inl e)
      then show ?thesis using Cons.prems True by simp
    next
      case (Inr sz)
      then have "generate_loop cfg t thr cs (acc @ [make_signal t c sz]) = Inr sigs"
        using Cons.prems True by simp
      from Cons.IH[OF this] show ?thesis by auto
    qed
  qed
qed

text \<open>
  Claim C4, as amended. A market with fewer than two participants yields no consensus, and a
  cycle generates no signal from it: every signal that \<^verbatim>\<open>generate_signals\<close> builds from
  the output of \<^verbatim>\<open>aggregate_consensus\<close> is built from the consensus of an active market
  with at least two participants.
\<close>

theorem few_participants_no_signal:
  "(length (m_participants mkt) < 2 \<longrightarrow> calculate_crypto_consensus env mkt = Inr None)
   \<and> (aggregate_consensus env v = Inr cs \<and> generate_signals env v cs = Inr (sigs, v') \<and> s \<in> set sigs
        \<longrightarrow> (\<exists>c\<in>set cs. (\<exists>sz. s = make_signal (clock env) c sz)
               \<and> (\<exists>k. (k, mc_prediction_data c) \<in> set (active_markets v))
               \<and> 2 \<le> length (m_participants (mc_prediction_data c))))"
proof (intro conjI impI)
  assume "length (m_participants mkt) < 2"
  then show "calculate_crypto_consensus env mkt = Inr None"
    by (simp add: calculate_crypto_consensus_def)
next
  assume h: "aggregate_consensus env v = Inr cs \<and> generate_signals env v cs = Inr (sigs, v') \<and> s \<in> set sigs"
  then have agg: "aggregate_loop env (active_markets v) [] = Inr cs"
    by (simp add: aggregate_consensus_def)
  from h obtain thr where "generate_loop (config v) (clock env) thr cs [] = Inr sigs"
    by (auto simp: generate_signals_def split: sum.splits)
  from generate_loop_sources[OF this] h
  obtain c sz where c: "c \<in> set cs" "s = make_signal (clock env) c sz" by auto
  from aggregate_loop_sources[OF agg] c(1)
  have "(\<exists>k. (k, mc_prediction_data c) \<in> set (active_markets v))
        \<and> 2 \<le> length (m_participants (mc_prediction_data c))" by auto
  with c show "\<exists>c\<in>set cs. (\<exists>sz. s = make_signal (clock env) c sz)
               \<and> (\<exists>k. (k, mc_prediction_data c) \<in> set (active_markets v))
               \<and> 2 \<le> length (m_participants (mc_prediction_data c))" by blast
qed


lemma example_consensus:
  "calculate_crypto_consensus example_env (example_market [''agent_1'', ''agent_2'', ''agent_3'']) =
     Inr (Some \<lparr> mc_asset = ''BTC'', mc_signal_strength = 16677 / 22500,
                 mc_confidence = 17669 / 22500, mc_agent_count = 3,
                 mc_prediction_data = example_market [''agent_1'', ''agent_2'', ''agent_3''],
                 mc_timestamp = 0 \<rparr>)"
  using ex_retrieved3
  by (simp add: calc_eq retrieved_predictions_def weight_sum_def weighted_sum_def)
     (simp add: example_market_def example_env_def)

text \<open>
  A venue with a single-participant market and the example market: the only consensus, and
  the only signal, come from the example market.
\<close>

theorem few_participants_no_signal_witness:
  "length (m_participants (example_market [''agent_1''])) < 2
   \<and> calculate_crypto_consensus example_env (example_market [''agent_1'']) = Inr None
   \<and> (\<exists>cs sigs v' s.
         aggregate_consensus example_env
           (example_venue get_default_config
              [(''crypto_BTC_1'', example_market [''agent_1'']),
               (''crypto_BTC_0'', example_market [''agent_1'', ''agent_2'', ''agent_3''])]) = Inr cs
       \<and> generate_signals example_env
           (example_venue get_default_config
              [(''crypto_BTC_1'', example_market [''agent_1'']),
               (''crypto_BTC_0'', example_market [''agent_1'', ''agent_2'', ''agent_3''])]) cs
           = Inr (sigs, v')
       \<and> s \<in> set sigs
       \<and> (\<exists>c\<in>set cs. 2 \<le> length (m_participants (mc_prediction_data c))))"
proof -
  let ?m1 = "example_market [''agent_1'']"
  let ?m3 = "example_market [''agent_1'', ''agent_2'', ''agent_3'']"
  let ?v = "example_venue get_default_config [(''crypto_BTC_1'', ?m1), (''crypto_BTC_0'', ?m3)]"
  have len: "length (m_participants ?m1) < 2" by (simp add: example_market_def)
  obtain c0 where c0: "calculate_crypto_consensus example_env ?m3 = Inr (Some c0)"
    "mc_confidence c0 = 17669 / 22500"
    using example_consensus by simp
  have m1: "calculate_crypto_consensus example_env ?m1 = Inr None"
    using len by (simp add: calculate_crypto_consensus_def)
  have agg: "aggregate_consensus example_env ?v = Inr [c0]"
    using c0(1) m1 by (simp add: aggregate_consensus_def example_venue_def example_market_def)
  obtain s0 v0 where gen: "generate_signals example_env ?v [c0] = Inr ([s0], v0)"
    using c0(2)
    by (simp add: generate_signals_def config_trading_def subscript_def example_venue_def
        get_default_config_def calculate_position_size_def)
  have "s0 \<in> set [s0]" by simp
  with few_participants_no_signal[of ?m1 example_env ?v "[c0]" "[s0]" v0 s0] len agg gen
  show ?thesis by blast
qed

text \<open>
  Claim C4 as stated fails: the guard counts participants, not predictions. A market with two
  participants of which one has a prediction has fewer than two contributing predictions,
  yet a consensus is returned for it and a signal is generated from that consensus.
\<close>

theorem partial_predictions_counterexample:
  "length (retrieved_predictions example_env (example_market [''agent_1'', ''agent_9''])) < 2
   \<and> (\<exists>c. calculate_crypto_consensus example_env (example_market [''agent_1'', ''agent_9''])
              = Inr (Some c)
          \<and> (\<exists>s v'. generate_signals example_env (example_venue get_default_config []) [c]
                       = Inr ([s], v')))"
  by (simp add: retrieved_predictions_def example_env_def example_market_def
      calculate_crypto_consensus_def truediv_def generate_signals_def config_trading_def
      subscript_def example_venue_def get_default_config_def calculate_position_size_def)

section \<open>Position sizing\<close>

lemma calculate_position_size_eq:
  "config_trading cfg ''max_position_size'' max_position_size = Inr m \<Longrightarrow>
   calculate_position_size cfg c = Inr (min (m * mc_confidence c * \<bar>mc_signal_strength c\<bar>) m)"
  by (simp add: calculate_position_size_def)

lemma generate_loop_eq:
  assumes "config_trading cfg ''max_position_size'' max_position_size = Inr m"
  shows "generate_loop cfg t thr cs acc =
     Inr (acc @ map (\<lambda>c. make_signal t c (min (m * mc_confidence c * \<bar>mc_signal_strength c\<bar>) m))
                  (filter (\<lambda>c. thr \<le> mc_confidence c) cs))"
  by (induction cs arbitrary: acc) (simp_all add: calculate_position_size_eq[OF assms])

lemma bridge_position_size_clamp:
  "bridge_calculate_position_size b s c =
     max (0.25 * section_get (trading (bridge_venue_config b)) max_position_size 0.025)
         (min (section_get (trading (bridge_venue_config b)) max_position_size 0.025 * \<bar>s\<bar> * c)
              (section_get (trading (bridge_venue_config b)) max_position_size 0.025))"
  by (simp add: bridge_calculate_position_size_def Let_def mult.commute)

text \<open>
  Extra X1. The bridge's \<^verbatim>\<open>calculate_position_size\<close> is the clamp of the
  specification: for a non-negative configured maximum the size lies between a quarter of
  the maximum and the maximum, for every signal strength and confidence.
\<close>

theorem bridge_position_size_bounds:
  assumes "0 \<le> section_get (trading (bridge_venue_config b)) max_position_size 0.025"
  shows "0.25 * section_get (trading (bridge_venue_config b)) max_position_size 0.025
           \<le> bridge_calculate_position_size b s c
       \<and> bridge_calculate_position_size b s c
           \<le> section_get (trading (bridge_venue_config b)) max_position_size 0.025"
  using assms unfolding bridge_position_size_clamp by (auto simp: max_def min_def)

theorem bridge_position_size_bounds_witness:
  "0 \<le> section_get (trading (bridge_venue_config (init_bridge get_default_config
            get_default_trading_config MockTradingEngine))) max_position_size (0.025 :: real)
   \<and> 0.25 * 0.025 \<le> bridge_calculate_position_size
        (init_bridge get_default_config get_default_trading_config MockTradingEngine) 0.75 0.82
   \<and> bridge_calculate_position_size
        (init_bridge get_default_config get_default_trading_config MockTradingEngine) 0.75 0.82
       \<le> 0.025"
proof -
  let ?b = "init_bridge get_default_config get_default_trading_config MockTradingEngine"
  have m: "section_get (trading (bridge_venue_config ?b)) max_position_size d = 1 / 40" for d :: real
    by (simp add: init_bridge_def get_default_config_def section_get_def get_or_def)
  have h: "0 \<le> section_get (trading (bridge_venue_config ?b)) max_position_size (0.025 :: real)"
    unfolding m by simp
  show ?thesis
    using h bridge_position_size_bounds[OF h, of "0.75" "0.82"] unfolding m by simp
qed

text \<open>
  Claim C1 at a failing input. With the default configuration (maximum 0.025, so minimum
  0.00625) a consensus of signal strength 0.3 and confidence 0.7 passes the threshold of
  \<^verbatim>\<open>generate_signals\<close> and gets the size 0.025 * 0.7 * 0.3 = 0.00525, below the minimum:
  the orchestrator's \<^verbatim>\<open>calculate_position_size\<close> only caps the product. The bridge's
  \<^verbatim>\<open>calculate_position_size\<close> returns the minimum 0.00625 for the same strength and
  confidence.
\<close>

theorem venue_size_below_minimum:
  "(\<exists>s v'. generate_signals (stub_env 0) (example_venue get_default_config []) [weak_consensus]
              = Inr ([s], v')
          \<and> ts_size s = 21 / 4000 \<and> ts_size s < 0.25 * 0.025)
   \<and> bridge_calculate_position_size
        (init_bridge get_default_config get_default_trading_config MockTradingEngine) 0.3 0.7
       = 0.25 * 0.025"
  by (simp add: generate_signals_def config_trading_def subscript_def example_venue_def
      get_default_config_def calculate_position_size_def weak_consensus_def stub_env_def
      make_signal_def bridge_calculate_position_size_def init_bridge_def section_get_def
      get_or_def)


section \<open>The cycle and the main loop\<close>

text \<open>
  A cycle that raises stopped in one of the five phases that can raise; the phases started
  are those up to that phase, and the venue is as that phase left it.
\<close>

lemma run_venue_cycle_raises:
  assumes "run_venue_cycle env v = (started, Inl (e, v'))"
  shows "(manage_markets env v = Inl (e, v') \<and> started = take 1 cycle_phases)
       \<or> (\<exists>v1. manage_markets env v = Inr v1 \<and> coordinate_agents v1 = Inl e \<and> v' = v1
              \<and> started = take 2 cycle_phases)
       \<or> (\<exists>v1. manage_markets env v = Inr v1 \<and> coordinate_agents v1 = Inr ()
              \<and> aggregate_consensus env v1 = Inl e \<and> v' = v1 \<and> started = take 3 cycle_phases)
       \<or> (\<exists>v1 consensus_data. manage_markets env v = Inr v1 \<and> coordinate_agents v1 = Inr ()
              \<and> aggregate_consensus env v1 = Inr consensus_data
              \<and> generate_signals env v1 consensus_data = Inl e \<and> v' = v1
              \<and> started = take 4 cycle_phases)
       \<or> (\<exists>v1 consensus_data signals v2. manage_markets env v = Inr v1
              \<and> coordinate_agents v1 = Inr ()
              \<and> aggregate_consensus env v1 = Inr consensus_data
              \<and> generate_signals env v1 consensus_data = Inr (signals, v2)
              \<and> update_metrics env v2 = Inl (e, v') \<and> started = cycle_phases)"
  using assms
  by (auto simp: run_venue_cycle_def cycle_phases_def Let_def split: sum.splits prod.splits)

text \<open>
  Extra X2. A cycle that returns has started all six phases, and the iteration of the main
  loop then sleeps the cycle interval of 1800 seconds.
\<close>

theorem run_venue_cycle_returns:
  assumes "run_venue_cycle env v = (started, Inr v')" and "\<not> interrupted env"
  shows "started = cycle_phases
       \<and> main_iteration env v = Sleep started cycle_interval_seconds v'
       \<and> cycle_interval_seconds = 1800"
  using assms
  by (auto simp: run_venue_cycle_def main_iteration_def cycle_interval_seconds_def Let_def
      split: sum.splits prod.splits)

theorem run_venue_cycle_returns_witness:
  "(\<exists>v'. run_venue_cycle (stub_env 0) (example_venue get_default_config [])
            = (cycle_phases, Inr v')
         \<and> main_iteration (stub_env 0) (example_venue get_default_config [])
            = Sleep cycle_phases 1800 v')
   \<and> \<not> interrupted (stub_env 0)"
proof -
  let ?v = "example_venue get_default_config []"
  obtain v' where run: "run_venue_cycle (stub_env 0) ?v = (cycle_phases, Inr v')"
    by (simp add: run_venue_cycle_def stub_env_def example_venue_def coordinate_agents_def
        aggregate_consensus_def generate_signals_def config_trading_def subscript_def
        get_default_config_def update_metrics_def Let_def)
  have ni: "\<not> interrupted (stub_env 0)" by (simp add: stub_env_def)
  show ?thesis
    using run ni run_venue_cycle_returns[OF run ni] by simp
qed

text \<open>
  With the collaborators of the source, whose \<^verbatim>\<open>get_agent_prediction\<close> returns and
  does not raise, aggregation itself does not raise: the division is guarded by the test of
  the total weight.
\<close>

lemma calculate_crypto_consensus_returns: "calculate_crypto_consensus env mkt \<noteq> Inl e"
  by (simp add: calculate_crypto_consensus_def truediv_def Let_def split: prod.splits)

lemma aggregate_loop_returns: "aggregate_loop env ms consensus_data \<noteq> Inl e"
proof (induction ms arbitrary: consensus_data)
  case Nil
  show ?case by simp
next
  case (Cons m ms)
  obtain market_id mkt where m: "m = (market_id, mkt)" by (cases m)
  show ?case
    using Cons.IH calculate_crypto_consensus_returns[of env mkt]
    by (simp add: m split: sum.splits option.splits)
qed

text \<open>
  The example environments and venues, phase by phase.
\<close>

lemma example_env_sel:
  "manage_markets example_env = (\<lambda>v. Inr v)" "save_metrics example_env = (\<lambda>stats. None)"
  "\<not> interrupted example_env" "clock example_env = 0"
  by (simp_all add: example_env_def)

lemma failing_env_sel:
  "manage_markets failing_markets_env = (\<lambda>v. Inl (Error ''price feed unavailable'', v))"
  "\<not> interrupted failing_markets_env"
  "manage_markets failing_save_env = (\<lambda>v. Inr v)"
  "save_metrics failing_save_env = (\<lambda>stats. Some (Error ''cannot write metrics file''))"
  "\<not> interrupted failing_save_env" "clock failing_save_env = 0"
  by (simp_all add: failing_markets_env_def failing_save_env_def example_env_def)

lemma example_phases:
  "coordinate_agents (example_venue cfg []) = Inr ()"
  "aggregate_consensus env (example_venue cfg []) = Inr []"
  "generate_signals env (example_venue no_trading_config []) [] = Inl (KeyError ''trading'')"
  "generate_signals env (example_venue get_default_config []) []
     = Inr ([], (example_venue get_default_config [])\<lparr>trading_signals := []\<rparr>)"
  "coordinate_agents (example_venue no_agents_config [(k, m)]) = Inl (KeyError ''agents'')"
  by (simp_all add: coordinate_agents_def aggregate_consensus_def generate_signals_def
      config_trading_def config_agents_def subscript_def example_venue_def
      no_trading_config_def get_default_config_def no_agents_config_def)

text \<open>
  Claim C8. When a phase of a cycle raises an exception, the cycle raises that exception and
  the phases after it are not started: if \<^verbatim>\<open>manage_markets\<close> raises, only it was
  started; if \<^verbatim>\<open>coordinate_agents\<close> raises after \<^verbatim>\<open>manage_markets\<close> returned, the
  first two were started; likewise for \<^verbatim>\<open>aggregate_consensus\<close> and
  \<^verbatim>\<open>generate_signals\<close>; \<^verbatim>\<open>execute_trades\<close> handles the exceptions of its signals
  itself and does not raise; \<^verbatim>\<open>update_metrics\<close> is the last phase. In each case the
  iteration of the main loop sleeps 60 seconds, not the 1800 seconds it sleeps after a cycle
  that returned, and the loop goes on with the next cycle, on the venue as the phase that
  raised left it. The source writes both durations as literals; they are the defaults of
  \<^verbatim>\<open>error_backoff_seconds\<close> and \<^verbatim>\<open>cycle_interval_seconds\<close>.
\<close>

theorem cycle_failure_backoff:
  assumes "\<not> interrupted env"
    and "(manage_markets env v = Inl (e, v') \<and> started = take 1 cycle_phases)
       \<or> (\<exists>v1. manage_markets env v = Inr v1 \<and> coordinate_agents v1 = Inl e \<and> v' = v1
              \<and> started = take 2 cycle_phases)
       \<or> (\<exists>v1. manage_markets env v = Inr v1 \<and> coordinate_agents v1 = Inr ()
              \<and> aggregate_consensus env v1 = Inl e \<and> v' = v1 \<and> started = take 3 cycle_phases)
       \<or> (\<exists>v1 consensus_data. manage_markets env v = Inr v1 \<and> coordinate_agents v1 = Inr ()
              \<and> aggregate_consensus env v1 = Inr consensus_data
              \<and> generate_signals env v1 consensus_data = Inl e \<and> v' = v1
              \<and> started = take 4 cycle_phases)
       \<or> (\<exists>v1 consensus_data signals v2. manage_markets env v = Inr v1
              \<and> coordinate_agents v1 = Inr ()
              \<and> aggregate_consensus env v1 = Inr consensus_data
              \<and> generate_signals env v1 consensus_data = Inr (signals, v2)
              \<and> update_metrics env v2 = Inl (e, v') \<and> started = cycle_phases)"
  shows "run_venue_cycle env v = (started, Inl (e, v'))
       \<and> main_iteration env v = Sleep started error_backoff_seconds v'
       \<and> error_backoff_seconds = 60 \<and> cycle_interval_seconds = 1800
       \<and> (\<forall>n envs i. envs i = env \<longrightarrow>
            main_loop (Suc n) envs i v = (started, 60) # main_loop n envs (Suc i) v')"
proof -
  have run: "run_venue_cycle env v = (started, Inl (e, v'))"
    using assms(2)
    by (elim disjE exE conjE) (simp_all add: run_venue_cycle_def cycle_phases_def Let_def)
  have it: "main_iteration env v = Sleep started error_backoff_seconds v'"
    using run assms(1) by (simp add: main_iteration_def)
  have loop: "\<forall>n envs i. envs i = env \<longrightarrow>
            main_loop (Suc n) envs i v = (started, 60) # main_loop n envs (Suc i) v'"
    using it by (simp add: error_backoff_seconds_def)
  show ?thesis
    using run it loop by (simp add: error_backoff_seconds_def cycle_interval_seconds_def)
qed

text \<open>
  Four cycles that raise. The exchange feed fails in \<^verbatim>\<open>manage_markets\<close>: one phase
  started. The scenario of the specification, a configuration with no \<^verbatim>\<open>agents\<close>
  section and one active market: \<^verbatim>\<open>coordinate_agents\<close> raises \<^verbatim>\<open>KeyError\<close>, two
  phases started, and the loop sleeps 60 seconds and starts the next cycle. A configuration
  with no \<^verbatim>\<open>trading\<close> section: \<^verbatim>\<open>generate_signals\<close> raises \<^verbatim>\<open>KeyError\<close>, four
  phases started. The metrics file cannot be written: \<^verbatim>\<open>update_metrics\<close> raises after
  all six phases were started. Every one of them is followed by a sleep of 60 seconds.
\<close>

theorem cycle_failure_backoff_witness:
  "run_venue_cycle failing_markets_env (example_venue get_default_config [])
     = (take 1 cycle_phases,
        Inl (Error ''price feed unavailable'', example_venue get_default_config []))
   \<and> main_iteration failing_markets_env (example_venue get_default_config [])
     = Sleep (take 1 cycle_phases) 60 (example_venue get_default_config [])
   \<and> run_venue_cycle example_env
        (example_venue no_agents_config [(''crypto_BTC_0'', example_market [''agent_1'', ''agent_2''])])
     = ([ManageMarkets, CoordinateAgents],
        Inl (KeyError ''agents'',
             example_venue no_agents_config [(''crypto_BTC_0'', example_market [''agent_1'', ''agent_2''])]))
   \<and> main_iteration example_env
        (example_venue no_agents_config [(''crypto_BTC_0'', example_market [''agent_1'', ''agent_2''])])
     = Sleep [ManageMarkets, CoordinateAgents] 60
        (example_venue no_agents_config [(''crypto_BTC_0'', example_market [''agent_1'', ''agent_2''])])
   \<and> main_loop 2 (\<lambda>i. example_env) 0
        (example_venue no_agents_config [(''crypto_BTC_0'', example_market [''agent_1'', ''agent_2''])])
     = [([ManageMarkets, CoordinateAgents], 60), ([ManageMarkets, CoordinateAgents], 60)]
   \<and> run_venue_cycle example_env (example_venue no_trading_config [])
     = (take 4 cycle_phases, Inl (KeyError ''trading'', example_venue no_trading_config []))
   \<and> main_iteration example_env (example_venue no_trading_config [])
     = Sleep (take 4 cycle_phases) 60 (example_venue no_trading_config [])
   \<and> (\<exists>v'. run_venue_cycle failing_save_env (example_venue get_default_config [])
             = (cycle_phases, Inl (Error ''cannot write metrics file'', v'))
          \<and> main_iteration failing_save_env (example_venue get_default_config [])
             = Sleep cycle_phases 60 v')"
proof -
  let ?v0 = "example_venue get_default_config []"
  let ?va = "example_venue no_agents_config [(''crypto_BTC_0'', example_market [''agent_1'', ''agent_2''])]"
  let ?vt = "example_venue no_trading_config []"
  have p1: "manage_markets failing_markets_env ?v0 = Inl (Error ''price feed unavailable'', ?v0)
      \<and> take 1 cycle_phases = take 1 cycle_phases"
    by (simp add: failing_env_sel)
  note t1 = cycle_failure_backoff[where env = failing_markets_env and v = ?v0
      and e = "Error ''price feed unavailable''" and v' = ?v0 and started = "take 1 cycle_phases",
      OF failing_env_sel(2) disjI1, OF p1]
  have p2: "\<exists>v1. manage_markets example_env ?va = Inr v1
      \<and> coordinate_agents v1 = Inl (KeyError ''agents'') \<and> ?va = v1
      \<and> [ManageMarkets, CoordinateAgents] = take 2 cycle_phases"
    by (simp add: example_env_sel example_phases cycle_phases_def)
  note t2 = cycle_failure_backoff[where env = example_env and v = ?va
      and e = "KeyError ''agents''" and v' = ?va and started = "[ManageMarkets, CoordinateAgents]",
      OF example_env_sel(3) disjI2, OF disjI1, OF p2]
  have p4: "\<exists>v1 consensus_data. manage_markets example_env ?vt = Inr v1
      \<and> coordinate_agents v1 = Inr ()
      \<and> aggregate_consensus example_env v1 = Inr consensus_data
      \<and> generate_signals example_env v1 consensus_data = Inl (KeyError ''trading'') \<and> ?vt = v1
      \<and> take 4 cycle_phases = take 4 cycle_phases"
    by (simp add: example_env_sel example_phases)
  note t4 = cycle_failure_backoff[where env = example_env and v = ?vt
      and e = "KeyError ''trading''" and v' = ?vt and started = "take 4 cycle_phases",
      OF example_env_sel(3) disjI2, OF disjI2, OF disjI2, OF disjI1, OF p4]
  obtain v5 where u: "update_metrics failing_save_env (?v0\<lparr>trading_signals := []\<rparr>)
      = Inl (Error ''cannot write metrics file'', v5)"
    by (simp add: update_metrics_def failing_env_sel Let_def)
  have p5: "\<exists>v1 consensus_data signals v2. manage_markets failing_save_env ?v0 = Inr v1
      \<and> coordinate_agents v1 = Inr ()
      \<and> aggregate_consensus failing_save_env v1 = Inr consensus_data
      \<and> generate_signals failing_save_env v1 consensus_data = Inr (signals, v2)
      \<and> update_metrics failing_save_env v2 = Inl (Error ''cannot write metrics file'', v5)
      \<and> cycle_phases = cycle_phases"
    using u by (simp add: failing_env_sel example_phases)
  note t5 = cycle_failure_backoff[where env = failing_save_env and v = ?v0
      and e = "Error ''cannot write metrics file''" and v' = v5 and started = cycle_phases,
      OF failing_env_sel(5) disjI2, OF disjI2, OF disjI2, OF disjI2, OF p5]
  have l1: "main_loop (Suc (Suc 0)) (\<lambda>i. example_env) 0 ?va
      = ([ManageMarkets, CoordinateAgents], 60) # main_loop (Suc 0) (\<lambda>i. example_env) (Suc 0) ?va"
    using t2 by simp
  have l2: "main_loop (Suc 0) (\<lambda>i. example_env) (Suc 0) ?va
      = ([ManageMarkets, CoordinateAgents], 60) # main_loop 0 (\<lambda>i. example_env) (Suc (Suc 0)) ?va"
    using t2 by simp
  have loop: "main_loop 2 (\<lambda>i. example_env) 0 ?va
      = [([ManageMarkets, CoordinateAgents], 60), ([ManageMarkets, CoordinateAgents], 60)]"
    using l1 l2 by (simp add: numeral_2_eq_2)
  have e5: "\<exists>v'. run_venue_cycle failing_save_env ?v0
             = (cycle_phases, Inl (Error ''cannot write metrics file'', v'))
          \<and> main_iteration failing_save_env ?v0 = Sleep cycle_phases 60 v'"
    using t5 by auto
  show ?thesis
    using t1 t2 t4 e5 loop by simp
qed

section \<open>Signal creation in the bridge\<close>

lemma upper_BTC: "upper ''BTC'' = ''BTC''" "upper ''ETH'' = ''ETH''"
  by (simp_all add: upper_def upper_char_def)

lemma pairs: "map_asset_to_pair ''BTC'' = Some ''BTC-USDT''" "map_asset_to_pair ''ETH'' = Some ''ETH-USDT''"
  by (simp_all add: map_asset_to_pair_def upper_BTC asset_mapping_def)

lemma assess_snd: "snd (assess_trade_risk env b p d s) = b"
  by (simp add: assess_trade_risk_def split: sum.splits)

lemma signal_dict_Inr:
  assumes "signal_dict env c asset x conf pair dir sz ra = Inr sg"
  shows "sig_signal_strength sg = \<bar>x\<bar> \<and> sig_direction sg = dir \<and> sig_prediction_data sg = c
       \<and> sig_size sg = sz \<and> sig_trading_pair sg = pair \<and> sig_confidence sg = conf"
proof -
  from assms obtain sl tp n where
    "sg = \<lparr> sig_id = (asset, bridge_clock env),
                sig_source = ''prediction_venue'',
                sig_timestamp = bridge_clock env,
                sig_trading_pair = pair,
                sig_direction = dir,
                sig_size = sz,
                sig_confidence = conf,
                sig_signal_strength = \<bar>x\<bar>,
                sig_entry_type = ''market'',
                sig_stop_loss = sl,
                sig_take_profit = tp,
                sig_reasoning = (x, conf, n),
                sig_prediction_data = c,
                sig_expiry = bridge_clock env + 24 * 3600 \<rparr>"
    unfolding signal_dict_def by (auto split: sum.splits)
  then show ?thesis by simp
qed


lemma assess_pair: "assess_trade_risk env b p d s = (fst (assess_trade_risk env b p d s), b)"
  using assess_snd[of env b p d s] by (simp add: prod_eq_iff)

lemma create_trading_signal_cases:
  "create_trading_signal env b c =
     (case (c_asset c, c_signal_strength c, c_confidence c) of
        (None, _, _) \<Rightarrow> (Inl (KeyError ''asset''), b)
      | (Some asset, None, _) \<Rightarrow> (Inl (KeyError ''signal_strength''), b)
      | (Some asset, Some x, None) \<Rightarrow> (Inl (KeyError ''confidence''), b)
      | (Some asset, Some x, Some conf) \<Rightarrow>
          (case map_asset_to_pair asset of
             None \<Rightarrow> (Inr None, b)
           | Some pair \<Rightarrow>
               (if \<not> approved (fst (assess_trade_risk env b pair (if x > 0 then ''long'' else ''short'')
                                      (bridge_calculate_position_size b x conf)))
                then (Inr None, b)
                else
                  (case signal_dict env c asset x conf pair (if x > 0 then ''long'' else ''short'')
                          (bridge_calculate_position_size b x conf)
                          (fst (assess_trade_risk env b pair (if x > 0 then ''long'' else ''short'')
                                 (bridge_calculate_position_size b x conf))) of
                     Inl e \<Rightarrow> (Inl e, b)
                   | Inr sg \<Rightarrow> (Inr (Some sg), b)))))"
proof (cases "c_asset c")
  case None
  then show ?thesis by (simp add: create_trading_signal_def subscript_def)
next
  case a: (Some asset)
  show ?thesis
  proof (cases "c_signal_strength c")
    case None
    then show ?thesis using a by (simp add: create_trading_signal_def subscript_def)
  next
    case x: (Some x)
    show ?thesis
    proof (cases "c_confidence c")
      case None
      then show ?thesis using a x by (simp add: create_trading_signal_def subscript_def)
    next
      case cf: (Some conf)
      show ?thesis
      proof (cases "map_asset_to_pair asset")
        case None
        then show ?thesis using a x cf by (simp add: create_trading_signal_def subscript_def)
      next
        case (Some pair)
        show ?thesis
          unfolding create_trading_signal_def Let_def
          using a x cf Some
          by (subst assess_pair) (simp add: subscript_def)
      qed
    qed
  qed
qed

lemma create_trading_signal_bridge: "snd (create_trading_signal env b c) = b"
  unfolding create_trading_signal_cases
  by (simp split: option.splits sum.splits)

lemma create_trading_signal_Some:
  assumes "create_trading_signal env b c = (Inr (Some sg), b')"
  shows "b' = b \<and> (\<exists>x. c_signal_strength c = Some x
           \<and> sig_signal_strength sg = \<bar>x\<bar>
           \<and> sig_direction sg = (if x > 0 then ''long'' else ''short''))
         \<and> sig_prediction_data sg = c"
proof -
  have b: "b' = b" using create_trading_signal_bridge[of env b c] assms by simp
  from assms obtain asset x conf pair where
    x: "c_signal_strength c = Some x" and
    sd: "signal_dict env c asset x conf pair (if x > 0 then ''long'' else ''short'')
           (bridge_calculate_position_size b x conf)
           (fst (assess_trade_risk env b pair (if x > 0 then ''long'' else ''short'')
                  (bridge_calculate_position_size b x conf))) = Inr sg"
    unfolding create_trading_signal_cases
    by (auto split: option.splits sum.splits if_splits)
  from signal_dict_Inr[OF sd] x b show ?thesis by simp
qed


lemma create_trading_signal_pair:
  "create_trading_signal env b c = (fst (create_trading_signal env b c), b)"
  using create_trading_signal_bridge[of env b c] by (simp add: prod_eq_iff)

lemma process_loop_step:
  "process_loop env b (c # cs) acc =
     process_loop env b cs (case signal_of env b c of None \<Rightarrow> acc | Some sg \<Rightarrow> acc @ [sg])"
proof (cases "validate_consensus b c")
  case False
  then show ?thesis by (simp add: signal_of_def)
next
  case True
  have "process_loop env b (c # cs) acc =
      (case (fst (create_trading_signal env b c), b) of
           (Inl e, b') \<Rightarrow> process_loop env b' cs acc
         | (Inr None, b') \<Rightarrow> process_loop env b' cs acc
         | (Inr (Some sg), b') \<Rightarrow> process_loop env b' cs (acc @ [sg]))"
    using True create_trading_signal_pair[of env b c] by simp
  then show ?thesis
    using True by (simp add: signal_of_def split: sum.splits option.splits)
qed

lemma process_loop_eq:
  "process_loop env b cs acc = (acc @ List.map_filter (signal_of env b) cs, b)"
proof (induction cs arbitrary: acc)
  case Nil
  then show ?case by (simp add: List.map_filter_simps)
next
  case (Cons c cs)
  show ?case
    unfolding process_loop_step Cons.IH
    by (simp add: List.map_filter_simps split: option.splits)
qed

lemma process_prediction_signals_eq:
  "process_prediction_signals env b cs = (List.map_filter (signal_of env b) cs, b)"
  by (simp add: process_prediction_signals_def process_loop_eq)

lemma signal_of_Some:
  assumes "signal_of env b c = Some sg"
  shows "validate_consensus b c \<and> create_trading_signal env b c = (Inr (Some sg), b)"
proof -
  have v: "validate_consensus b c" using assms by (simp add: signal_of_def split: if_splits)
  have "fst (create_trading_signal env b c) = Inr (Some sg)"
    using assms v by (simp add: signal_of_def split: sum.splits option.splits)
  then show ?thesis using v create_trading_signal_pair[of env b c] by simp
qed

lemma map_filter_sources:
  "sg \<in> set (List.map_filter f cs) \<Longrightarrow> \<exists>c\<in>set cs. f c = Some sg"
  by (auto simp: List.map_filter_def)

section \<open>Risk assessment\<close>

text \<open>
  Claim C5. Given the open-position count that the exposure lookup returns for the trading
  pair, \<^verbatim>\<open>assess_trade_risk\<close> applies its checks in order: a count at or above
  \<^verbatim>\<open>max_positions\<close> (default 5) is rejected with the exposure reason, whatever the size
  (confidence is no input of the assessment); otherwise a size above the configured maximum
  (default 0.02) is rejected with the size reason; otherwise the trade is approved with the
  stop-loss and take-profit of the trading configuration (defaults 0.015 and 0.03), which do
  not depend on the size or the direction.
\<close>

theorem risk_checks_in_order:
  assumes "get_current_exposure env trading_pair = Inr current_exposure"
  shows
    "(current_exposure \<ge> section_get (portfolio (bridge_trading_config b)) max_positions 5 \<longrightarrow>
        fst (assess_trade_risk env b trading_pair direction sz) =
          \<lparr> approved = False,
            reason = MaximumExposureReached current_exposure
                       (section_get (portfolio (bridge_trading_config b)) max_positions 5),
            rd_stop_loss = None, rd_take_profit = None \<rparr>)
   \<and> (current_exposure < section_get (portfolio (bridge_trading_config b)) max_positions 5
        \<and> sz > section_get (risk_management (bridge_trading_config b)) rm_max_position_size 0.02 \<longrightarrow>
        fst (assess_trade_risk env b trading_pair direction sz) =
          \<lparr> approved = False,
            reason = PositionSizeExceedsLimit sz
                       (section_get (risk_management (bridge_trading_config b)) rm_max_position_size 0.02),
            rd_stop_loss = None, rd_take_profit = None \<rparr>)
   \<and> (current_exposure < section_get (portfolio (bridge_trading_config b)) max_positions 5
        \<and> sz \<le> section_get (risk_management (bridge_trading_config b)) rm_max_position_size 0.02 \<longrightarrow>
        fst (assess_trade_risk env b trading_pair direction sz) =
          \<lparr> approved = True, reason = TradeApproved,
            rd_stop_loss =
              Some (section_get (risk_management (bridge_trading_config b)) stop_loss 0.015),
            rd_take_profit =
              Some (section_get (risk_management (bridge_trading_config b)) take_profit 0.03) \<rparr>)
   \<and> (risk_management (bridge_trading_config b) = None
        \<and> current_exposure < section_get (portfolio (bridge_trading_config b)) max_positions 5
        \<and> sz \<le> 0.02 \<longrightarrow>
        fst (assess_trade_risk env b trading_pair direction sz) =
          \<lparr> approved = True, reason = TradeApproved,
            rd_stop_loss = Some 0.015, rd_take_profit = Some 0.03 \<rparr>)"
  using assms
  by (simp add: assess_trade_risk_def try_assess_trade_risk_def Let_def section_get_def)

text \<open>
  With the default trading configuration: five open positions reject even the minimum size,
  and with no open position the size 0.025 is rejected and the size 0.015 approved.
\<close>

theorem risk_checks_in_order_witness:
  "get_current_exposure (exposure_env (\<lambda>p. Inr (if p = ''BTC-USDT'' then 5 else 0))) ''BTC-USDT'' = Inr 5
   \<and> fst (assess_trade_risk (exposure_env (\<lambda>p. Inr (if p = ''BTC-USDT'' then 5 else 0)))
            (example_bridge MockTradingEngine) ''BTC-USDT'' ''long'' 0.00625)
       = \<lparr> approved = False, reason = MaximumExposureReached 5 5,
           rd_stop_loss = None, rd_take_profit = None \<rparr>
   \<and> get_current_exposure (mock_bridge_env 0) ''BTC-USDT'' = Inr 0
   \<and> fst (assess_trade_risk (mock_bridge_env 0) (example_bridge MockTradingEngine) ''BTC-USDT'' ''long'' 0.025)
       = \<lparr> approved = False, reason = PositionSizeExceedsLimit 0.025 0.02,
           rd_stop_loss = None, rd_take_profit = None \<rparr>
   \<and> fst (assess_trade_risk (mock_bridge_env 0) (example_bridge MockTradingEngine) ''BTC-USDT'' ''long'' 0.015)
       = \<lparr> approved = True, reason = TradeApproved,
           rd_stop_loss = Some 0.015, rd_take_profit = Some 0.03 \<rparr>"
proof -
  let ?e5 = "exposure_env (\<lambda>p. Inr (if p = ''BTC-USDT'' then 5 else 0))"
  have h5: "get_current_exposure ?e5 ''BTC-USDT'' = Inr 5" by (simp add: exposure_env_def)
  have h0: "get_current_exposure (mock_bridge_env 0) ''BTC-USDT'' = Inr 0"
    by (simp add: mock_bridge_env_def)
  have cfg: "section_get (portfolio (bridge_trading_config (example_bridge MockTradingEngine))) max_positions 5 = 5"
    "section_get (risk_management (bridge_trading_config (example_bridge MockTradingEngine))) rm_max_position_size 0.02 = 0.02"
    "section_get (risk_management (bridge_trading_config (example_bridge MockTradingEngine))) stop_loss 0.015 = 0.015"
    "section_get (risk_management (bridge_trading_config (example_bridge MockTradingEngine))) take_profit 0.03 = 0.03"
    by (simp_all add: example_bridge_def init_bridge_def get_default_trading_config_def
        section_get_def get_or_def)
  have t1: "fst (assess_trade_risk ?e5 (example_bridge MockTradingEngine) ''BTC-USDT'' ''long'' 0.00625)
       = \<lparr> approved = False, reason = MaximumExposureReached 5 5,
           rd_stop_loss = None, rd_take_profit = None \<rparr>"
    using risk_checks_in_order[OF h5, of "example_bridge MockTradingEngine" "''long''" "0.00625"]
    unfolding cfg by simp
  have t2: "fst (assess_trade_risk (mock_bridge_env 0) (example_bridge MockTradingEngine) ''BTC-USDT'' ''long'' 0.025)
       = \<lparr> approved = False, reason = PositionSizeExceedsLimit 0.025 0.02,
           rd_stop_loss = None, rd_take_profit = None \<rparr>"
    using risk_checks_in_order[OF h0, of "example_bridge MockTradingEngine" "''long''" "0.025"]
    unfolding cfg by simp
  have t3: "fst (assess_trade_risk (mock_bridge_env 0) (example_bridge MockTradingEngine) ''BTC-USDT'' ''long'' 0.015)
       = \<lparr> approved = True, reason = TradeApproved,
           rd_stop_loss = Some 0.015, rd_take_profit = Some 0.03 \<rparr>"
    using risk_checks_in_order[OF h0, of "example_bridge MockTradingEngine" "''long''" "0.015"]
    unfolding cfg by simp
  show ?thesis
    using h5 h0 t1 t2 t3 by simp
qed

text \<open>
  Claim C9. \<^verbatim>\<open>assess_trade_risk\<close> returns the bridge as it received it, and it returns a
  decision for every input: an exception of the exposure lookup (the only raise inside the
  \<^verbatim>\<open>try\<close>) becomes a rejection whose reason carries the exception, and an approval
  carries its reason together with stop-loss and take-profit.
\<close>

theorem risk_assessment_frame:
  "snd (assess_trade_risk env b trading_pair direction sz) = b
   \<and> (\<forall>e. get_current_exposure env trading_pair = Inl e \<longrightarrow>
         try_assess_trade_risk env b trading_pair direction sz = Inl e
         \<and> fst (assess_trade_risk env b trading_pair direction sz) =
             \<lparr> approved = False, reason = RiskAssessmentError e,
               rd_stop_loss = None, rd_take_profit = None \<rparr>)
   \<and> (\<forall>e. try_assess_trade_risk env b trading_pair direction sz = Inl e \<longrightarrow>
         \<not> approved (fst (assess_trade_risk env b trading_pair direction sz))
         \<and> reason (fst (assess_trade_risk env b trading_pair direction sz)) = RiskAssessmentError e)
   \<and> (approved (fst (assess_trade_risk env b trading_pair direction sz)) \<longrightarrow>
         reason (fst (assess_trade_risk env b trading_pair direction sz)) = TradeApproved
         \<and> rd_stop_loss (fst (assess_trade_risk env b trading_pair direction sz)) \<noteq> None
         \<and> rd_take_profit (fst (assess_trade_risk env b trading_pair direction sz)) \<noteq> None)"
  by (auto simp: assess_trade_risk_def try_assess_trade_risk_def Let_def split: sum.splits)

text \<open>An exposure lookup that raises, and the mock lookup of the source.\<close>

theorem risk_assessment_frame_witness:
  "get_current_exposure (exposure_env (\<lambda>p. Inl (Error ''position manager unavailable''))) ''BTC-USDT''
     = Inl (Error ''position manager unavailable'')
   \<and> assess_trade_risk (exposure_env (\<lambda>p. Inl (Error ''position manager unavailable'')))
        (example_bridge MockTradingEngine) ''BTC-USDT'' ''long'' 0.015
     = (\<lparr> approved = False, reason = RiskAssessmentError (Error ''position manager unavailable''),
          rd_stop_loss = None, rd_take_profit = None \<rparr>, (example_bridge MockTradingEngine))
   \<and> approved (fst (assess_trade_risk (mock_bridge_env 0) (example_bridge MockTradingEngine) ''BTC-USDT'' ''long'' 0.015))
   \<and> assess_trade_risk (mock_bridge_env 0) (example_bridge MockTradingEngine) ''BTC-USDT'' ''long'' 0.015
     = (\<lparr> approved = True, reason = TradeApproved,
          rd_stop_loss = Some 0.015, rd_take_profit = Some 0.03 \<rparr>, (example_bridge MockTradingEngine))"
proof -
  let ?env = "exposure_env (\<lambda>p. Inl (Error ''position manager unavailable''))"
  have h: "get_current_exposure ?env ''BTC-USDT'' = Inl (Error ''position manager unavailable'')"
    by (simp add: exposure_env_def)
  have a: "approved (fst (assess_trade_risk (mock_bridge_env 0) (example_bridge MockTradingEngine) ''BTC-USDT'' ''long'' 0.015))"
    "rd_stop_loss (fst (assess_trade_risk (mock_bridge_env 0) (example_bridge MockTradingEngine) ''BTC-USDT'' ''long'' 0.015)) = Some 0.015"
    "rd_take_profit (fst (assess_trade_risk (mock_bridge_env 0) (example_bridge MockTradingEngine) ''BTC-USDT'' ''long'' 0.015)) = Some 0.03"
    by (simp_all add: assess_trade_risk_def try_assess_trade_risk_def mock_bridge_env_def
        example_bridge_def init_bridge_def get_default_trading_config_def section_get_def get_or_def)
  have 1: "assess_trade_risk ?env (example_bridge MockTradingEngine) ''BTC-USDT'' ''long'' 0.015
     = (\<lparr> approved = False, reason = RiskAssessmentError (Error ''position manager unavailable''),
          rd_stop_loss = None, rd_take_profit = None \<rparr>, (example_bridge MockTradingEngine))"
    using h risk_assessment_frame[of ?env "example_bridge MockTradingEngine" "''BTC-USDT''" "''long''" "0.015"]
    by (simp add: prod_eq_iff)
  have 2: "assess_trade_risk (mock_bridge_env 0) (example_bridge MockTradingEngine) ''BTC-USDT'' ''long'' 0.015
     = (\<lparr> approved = True, reason = TradeApproved,
          rd_stop_loss = Some 0.015, rd_take_profit = Some 0.03 \<rparr>, (example_bridge MockTradingEngine))"
    using a risk_assessment_frame[of "mock_bridge_env 0" "example_bridge MockTradingEngine" "''BTC-USDT''" "''long''" "0.015"]
    by (simp add: prod_eq_iff risk_decision.equality)
  show ?thesis using h a(1) 1 2 by simp
qed

section \<open>The signals of the bridge\<close>

lemma example_bridge_sel:
  "bridge_venue_config (example_bridge eng) = get_default_config"
  "bridge_trading_config (example_bridge eng) = get_default_trading_config"
  "trading_engine (example_bridge eng) = eng"
  "prediction_trades (example_bridge eng) = []"
  by (simp_all add: example_bridge_def init_bridge_def)

lemma default_values:
  "section_get (trading get_default_config) execution_threshold d1 = 7 / 10"
  "section_get (agents get_default_config) min_agents_per_market d2 = 3"
  "section_get (trading get_default_config) max_position_size d3 = 1 / 40"
  "section_get (portfolio get_default_trading_config) max_positions d4 = 5"
  "section_get (risk_management get_default_trading_config) rm_max_position_size d5 = 1 / 50"
  "section_get (risk_management get_default_trading_config) stop_loss d6 = 3 / 200"
  "section_get (risk_management get_default_trading_config) take_profit d7 = 3 / 100"
  by (simp_all add: get_default_config_def get_default_trading_config_def section_get_def get_or_def)

lemma example_sizes:
  "bridge_calculate_position_size (example_bridge eng) (3 / 4) (41 / 50) = 123 / 8000"
  "bridge_calculate_position_size (example_bridge eng) (- (9 / 20)) (73 / 100) = 657 / 80000"
  by (simp_all add: bridge_calculate_position_size_def example_bridge_sel default_values)

lemma example_assess:
  "sz \<le> 1 / 50 \<Longrightarrow>
   assess_trade_risk (mock_bridge_env t) (example_bridge eng) pair dir sz =
     (\<lparr> approved = True, reason = TradeApproved,
        rd_stop_loss = Some (3 / 200), rd_take_profit = Some (3 / 100) \<rparr>, example_bridge eng)"
  by (simp add: assess_trade_risk_def try_assess_trade_risk_def mock_bridge_env_def
      example_bridge_sel default_values)

lemma example_validate:
  "validate_consensus (example_bridge eng) btc_consensus"
  "validate_consensus (example_bridge eng) eth_consensus"
  by (simp_all add: validate_consensus_def btc_consensus_def eth_consensus_def
      example_bridge_sel default_values)


lemma example_fields:
  "c_asset btc_consensus = Some ''BTC''" "c_signal_strength btc_consensus = Some (3 / 4)"
  "c_confidence btc_consensus = Some (41 / 50)" "c_agent_count btc_consensus = Some 5"
  "c_asset eth_consensus = Some ''ETH''" "c_signal_strength eth_consensus = Some (- (9 / 20))"
  "c_confidence eth_consensus = Some (73 / 100)" "c_agent_count eth_consensus = Some 4"
  by (simp_all add: btc_consensus_def eth_consensus_def)

lemma mock_clock: "bridge_clock (mock_bridge_env t) = t"
  by (simp add: mock_bridge_env_def)

lemma example_create:
  "create_trading_signal (mock_bridge_env 0) (example_bridge eng) btc_consensus
     = (Inr (Some btc_signal), example_bridge eng)"
  "create_trading_signal (mock_bridge_env 0) (example_bridge eng) eth_consensus
     = (Inr (Some eth_signal), example_bridge eng)"
  by (simp_all add: create_trading_signal_cases example_fields pairs example_sizes
      example_assess signal_dict_def subscript_def mock_clock btc_signal_def
      eth_signal_def)

lemma example_signal_of:
  "signal_of (mock_bridge_env 0) (example_bridge eng) btc_consensus = Some btc_signal"
  "signal_of (mock_bridge_env 0) (example_bridge eng) eth_consensus = Some eth_signal"
  by (simp_all add: signal_of_def example_validate example_create)

lemma mock_signals:
  "process_prediction_signals (mock_bridge_env 0) (example_bridge eng) mock_consensus
     = ([btc_signal, eth_signal], example_bridge eng)"
  by (simp add: process_prediction_signals_eq mock_consensus_def List.map_filter_simps
      example_signal_of)

text \<open>
  Claim C10. A signal that \<^verbatim>\<open>create_trading_signal\<close> returns for a consensus, and so
  every signal in the output of \<^verbatim>\<open>process_prediction_signals\<close>, has as
  \<^verbatim>\<open>signal_strength\<close> the absolute value (hence non-negative) of the signal strength of
  its consensus; its \<^verbatim>\<open>direction\<close> is \<^verbatim>\<open>long\<close> for a positive strength and
  \<^verbatim>\<open>short\<close> otherwise; and its \<^verbatim>\<open>prediction_data\<close> is that consensus itself,
  signed strength included.
\<close>

theorem signal_strength_is_magnitude:
  "(create_trading_signal env b c = (Inr (Some sg), b') \<longrightarrow>
      (\<exists>x. c_signal_strength c = Some x
          \<and> sig_signal_strength sg = \<bar>x\<bar> \<and> 0 \<le> sig_signal_strength sg
          \<and> sig_direction sg = (if x > 0 then ''long'' else ''short'')
          \<and> sig_prediction_data sg = c))
   \<and> (process_prediction_signals env b cs = (sigs, b') \<and> sg \<in> set sigs \<longrightarrow>
      (\<exists>x. sig_prediction_data sg \<in> set cs
          \<and> c_signal_strength (sig_prediction_data sg) = Some x
          \<and> sig_signal_strength sg = \<bar>x\<bar> \<and> 0 \<le> sig_signal_strength sg
          \<and> sig_direction sg = (if x > 0 then ''long'' else ''short'')))"
proof (intro conjI impI)
  assume "create_trading_signal env b c = (Inr (Some sg), b')"
  from create_trading_signal_Some[OF this]
  obtain x where "c_signal_strength c = Some x" "sig_signal_strength sg = \<bar>x\<bar>"
    "sig_direction sg = (if x > 0 then ''long'' else ''short'')" "sig_prediction_data sg = c"
    by blast
  then show "\<exists>x. c_signal_strength c = Some x
          \<and> sig_signal_strength sg = \<bar>x\<bar> \<and> 0 \<le> sig_signal_strength sg
          \<and> sig_direction sg = (if x > 0 then ''long'' else ''short'')
          \<and> sig_prediction_data sg = c" by simp
next
  assume h: "process_prediction_signals env b cs = (sigs, b') \<and> sg \<in> set sigs"
  then have p: "(List.map_filter (signal_of env b) cs, b) = (sigs, b')" and m: "sg \<in> set sigs"
    unfolding process_prediction_signals_eq by blast+
  have e: "List.map_filter (signal_of env b) cs = sigs"
    using p by (rule Pair_inject)
  have "sg \<in> set (List.map_filter (signal_of env b) cs)"
    unfolding e by (rule m)
  from map_filter_sources[OF this]
  obtain c0 where c0: "c0 \<in> set cs" "signal_of env b c0 = Some sg" by blast
  from signal_of_Some[OF c0(2)]
  have "create_trading_signal env b c0 = (Inr (Some sg), b)" by simp
  from create_trading_signal_Some[OF this]
  obtain x where "c_signal_strength c0 = Some x" "sig_signal_strength sg = \<bar>x\<bar>"
    "sig_direction sg = (if x > 0 then ''long'' else ''short'')" "sig_prediction_data sg = c0"
    by blast
  with c0(1) show "\<exists>x. sig_prediction_data sg \<in> set cs
          \<and> c_signal_strength (sig_prediction_data sg) = Some x
          \<and> sig_signal_strength sg = \<bar>x\<bar> \<and> 0 \<le> sig_signal_strength sg
          \<and> sig_direction sg = (if x > 0 then ''long'' else ''short'')" by simp
qed

text \<open>The bearish ETH consensus of \<^verbatim>\<open>main\<close>: strength -0.45 becomes 0.45 and \<^verbatim>\<open>short\<close>.\<close>

theorem signal_strength_is_magnitude_witness:
  "create_trading_signal (mock_bridge_env 0) (example_bridge MockTradingEngine) eth_consensus
     = (Inr (Some eth_signal), example_bridge MockTradingEngine)
   \<and> c_signal_strength eth_consensus = Some (- 0.45)
   \<and> sig_signal_strength eth_signal = 0.45
   \<and> sig_direction eth_signal = ''short''
   \<and> sig_prediction_data eth_signal = eth_consensus
   \<and> process_prediction_signals (mock_bridge_env 0) (example_bridge MockTradingEngine) mock_consensus
       = ([btc_signal, eth_signal], example_bridge MockTradingEngine)
   \<and> eth_signal \<in> set [btc_signal, eth_signal]
   \<and> sig_prediction_data eth_signal \<in> set mock_consensus"
proof -
  let ?env = "mock_bridge_env 0"
  let ?b = "example_bridge MockTradingEngine"
  have cr: "create_trading_signal ?env ?b eth_consensus = (Inr (Some eth_signal), ?b)"
    by (rule example_create)
  have pr: "process_prediction_signals ?env ?b mock_consensus = ([btc_signal, eth_signal], ?b)"
    by (rule mock_signals)
  have mem: "eth_signal \<in> set [btc_signal, eth_signal]" by simp
  have x: "c_signal_strength eth_consensus = Some (- 0.45)" by (simp add: eth_consensus_def)
  note th = signal_strength_is_magnitude[of ?env ?b eth_consensus eth_signal ?b
      mock_consensus "[btc_signal, eth_signal]"]
  have 1: "sig_signal_strength eth_signal = 0.45 \<and> sig_direction eth_signal = ''short''
      \<and> sig_prediction_data eth_signal = eth_consensus"
    using th cr x by auto
  have 2: "sig_prediction_data eth_signal \<in> set mock_consensus"
    using th pr mem by blast
  show ?thesis using cr x 1 pr mem 2 by simp
qed

section \<open>Execution and performance metrics\<close>

lemma execute_single_trade_engine:
  "trading_engine (snd (execute_single_trade env b sg)) =
     (trading_engine b)\<lparr>orders := orders (trading_engine b) @ [trade_params_of sg]\<rparr>"
  by (simp add: execute_single_trade_def execute_trade_def Let_def split: sum.splits)

lemma execute_single_trade_rest:
  "prediction_trades (snd (execute_single_trade env b sg)) = prediction_trades b"
  "performance_metrics (snd (execute_single_trade env b sg)) = performance_metrics b"
  by (simp_all add: execute_single_trade_def execute_trade_def Let_def split: sum.splits)

lemma execute_single_trade_success:
  "success (fst (execute_single_trade env b sg)) =
     (\<exists>result. respond (trading_engine b) (orders (trading_engine b)) (trade_params_of sg) = Inr result)"
  by (simp add: execute_single_trade_def execute_trade_def Let_def split: sum.splits)

lemma execute_single_trade_volume:
  "respond (trading_engine b) (orders (trading_engine b)) (trade_params_of sg) = Inr result \<Longrightarrow>
   volume (fst (execute_single_trade env b sg)) = Some (get_or (er_volume result) (PyNum 0))"
  by (simp add: execute_single_trade_def execute_trade_def Let_def)

lemma track_prediction_trade_sel:
  "trading_engine (track_prediction_trade env b sg res) = trading_engine b"
  "performance_metrics (track_prediction_trade env b sg res) = performance_metrics b"
  by (simp_all add: track_prediction_trade_def)

lemma execute_loop_Cons:
  "execute_loop env b (sg # rest) results =
     (if success (fst (execute_single_trade env b sg)) then
        (case add_value (total_volume results)
                (get_or (volume (fst (execute_single_trade env b sg))) (PyNum 0)) of
           Inl e \<Rightarrow>
             execute_loop env (snd (execute_single_trade env b sg)) rest
               (results\<lparr> successful := successful results + 1, failed := failed results + 1 \<rparr>)
         | Inr new_volume \<Rightarrow>
             execute_loop env
               (track_prediction_trade env (snd (execute_single_trade env b sg)) sg
                  (fst (execute_single_trade env b sg))) rest
               (results\<lparr> successful := successful results + 1,
                         total_volume := new_volume,
                         trades := trades results @ [fst (execute_single_trade env b sg)] \<rparr>))
      else
        execute_loop env (snd (execute_single_trade env b sg)) rest
          (results\<lparr> failed := failed results + 1 \<rparr>))"
  by (simp add: case_prod_beta Let_def split: sum.splits)

lemma execute_loop_orders:
  "orders (trading_engine (snd (execute_loop env b sigs results)))
     = orders (trading_engine b) @ map trade_params_of sigs"
proof (induction sigs arbitrary: b results)
  case Nil
  show ?case by simp
next
  case (Cons sg rest)
  show ?case
    unfolding execute_loop_Cons
    by (simp add: Cons.IH track_prediction_trade_sel execute_single_trade_engine split: sum.splits)
qed

lemma execute_loop_metrics:
  "performance_metrics (snd (execute_loop env b sigs results)) = performance_metrics b"
proof (induction sigs arbitrary: b results)
  case Nil
  show ?case by simp
next
  case (Cons sg rest)
  show ?case
    unfolding execute_loop_Cons
    by (simp add: Cons.IH track_prediction_trade_sel execute_single_trade_rest split: sum.splits)
qed

text \<open>
  When every result dictionary of the back end carries a numeric volume (or none), the
  addition to \<^verbatim>\<open>total_volume\<close> does not raise and every signal is counted once.
\<close>

lemma execute_loop_counts:
  assumes "\<forall>earlier p result. respond (trading_engine b) earlier p = Inr result \<longrightarrow>
             (\<exists>x. get_or (er_volume result) (PyNum 0) = PyNum x)"
  shows "successful (fst (execute_loop env b sigs results))
           + failed (fst (execute_loop env b sigs results))
         = successful results + failed results + int (length sigs)
       \<and> int (length (trades (fst (execute_loop env b sigs results))))
           - successful (fst (execute_loop env b sigs results))
         = int (length (trades results)) - successful results"
  using assms
proof (induction sigs arbitrary: b results)
  case Nil
  show ?case by simp
next
  case (Cons sg rest)
  let ?r = "fst (execute_single_trade env b sg)"
  let ?b1 = "snd (execute_single_trade env b sg)"
  have resp1: "respond (trading_engine ?b1) = respond (trading_engine b)"
    by (simp add: execute_single_trade_engine)
  have h1: "\<forall>earlier p result. respond (trading_engine ?b1) earlier p = Inr result \<longrightarrow>
             (\<exists>x. get_or (er_volume result) (PyNum 0) = PyNum x)"
    unfolding resp1 by (rule Cons.prems)
  have h2: "\<forall>earlier p result.
             respond (trading_engine (track_prediction_trade env ?b1 sg ?r)) earlier p = Inr result \<longrightarrow>
             (\<exists>x. get_or (er_volume result) (PyNum 0) = PyNum x)"
    unfolding track_prediction_trade_sel resp1 by (rule Cons.prems)
  show ?case
  proof (cases "success ?r")
    case False
    then show ?thesis
      unfolding execute_loop_Cons using Cons.IH[OF h1] by simp
  next
    case True
    then obtain result where
      res: "respond (trading_engine b) (orders (trading_engine b)) (trade_params_of sg) = Inr result"
      unfolding execute_single_trade_success by blast
    from Cons.prems res obtain x where x: "get_or (er_volume result) (PyNum 0) = PyNum x"
      by blast
    have vol: "get_or (volume ?r) (PyNum 0) = PyNum x"
      using execute_single_trade_volume[OF res, of env] x by (simp add: get_or_def)
    show ?thesis
      unfolding execute_loop_Cons using True Cons.IH[OF h2]
      by (simp add: vol add_value_def)
  qed
qed

lemma execute_prediction_trades_sel:
  "fst (execute_prediction_trades env b sigs) =
     fst (execute_loop env b sigs \<lparr> successful = 0, failed = 0, total_volume = 0.0, trades = [] \<rparr>)"
  "trading_engine (snd (execute_prediction_trades env b sigs)) =
     trading_engine (snd (execute_loop env b sigs
        \<lparr> successful = 0, failed = 0, total_volume = 0.0, trades = [] \<rparr>))"
  by (simp_all add: execute_prediction_trades_def case_prod_beta update_performance_metrics_def Let_def)

text \<open>
  Extra X3. \<^verbatim>\<open>execute_prediction_trades\<close> submits every signal of the batch to the back
  end, in order, whatever the back end answers to the others. When every result dictionary
  of the back end carries a numeric volume (or none), the report counts every signal once:
  successful + failed = N, with one entry of \<^verbatim>\<open>trades\<close> per success.
\<close>

theorem batch_failure_isolation:
  "orders (trading_engine (snd (execute_prediction_trades env b sigs)))
       = orders (trading_engine b) @ map trade_params_of sigs
   \<and> ((\<forall>earlier p result. respond (trading_engine b) earlier p = Inr result \<longrightarrow>
             (\<exists>x. get_or (er_volume result) (PyNum 0) = PyNum x)) \<longrightarrow>
        successful (fst (execute_prediction_trades env b sigs))
          + failed (fst (execute_prediction_trades env b sigs)) = int (length sigs)
        \<and> int (length (trades (fst (execute_prediction_trades env b sigs))))
          = successful (fst (execute_prediction_trades env b sigs)))"
proof (intro conjI impI)
  show "orders (trading_engine (snd (execute_prediction_trades env b sigs)))
       = orders (trading_engine b) @ map trade_params_of sigs"
    unfolding execute_prediction_trades_sel by (rule execute_loop_orders)
next
  assume h: "\<forall>earlier p result. respond (trading_engine b) earlier p = Inr result \<longrightarrow>
             (\<exists>x. get_or (er_volume result) (PyNum 0) = PyNum x)"
  from execute_loop_counts[OF h, of env sigs
      "\<lparr> successful = 0, failed = 0, total_volume = 0.0, trades = [] \<rparr>"]
  show "successful (fst (execute_prediction_trades env b sigs))
          + failed (fst (execute_prediction_trades env b sigs)) = int (length sigs)"
    and "int (length (trades (fst (execute_prediction_trades env b sigs))))
          = successful (fst (execute_prediction_trades env b sigs))"
    unfolding execute_prediction_trades_sel by simp_all
qed

lemma execute_prediction_trades_metrics:
  "total_signals (performance_metrics (snd (execute_prediction_trades env b sigs)))
     = total_signals (performance_metrics b)
       + int (length (trades (fst (execute_prediction_trades env b sigs))))"
  "executed_trades (performance_metrics (snd (execute_prediction_trades env b sigs)))
     = executed_trades (performance_metrics b)
       + successful (fst (execute_prediction_trades env b sigs))"
  "accuracy_rate (performance_metrics (snd (execute_prediction_trades env b sigs)))
     = (if total_signals (performance_metrics (snd (execute_prediction_trades env b sigs))) > 0
        then real_of_int (executed_trades (performance_metrics (snd (execute_prediction_trades env b sigs))))
             / real_of_int (total_signals (performance_metrics (snd (execute_prediction_trades env b sigs))))
        else accuracy_rate (performance_metrics b))"
  by (simp_all add: execute_prediction_trades_def case_prod_beta update_performance_metrics_def
      Let_def execute_loop_metrics)

lemma example_bridge_metrics:
  "total_signals (performance_metrics (example_bridge eng)) = 0"
  "executed_trades (performance_metrics (example_bridge eng)) = 0"
  "accuracy_rate (performance_metrics (example_bridge eng)) = 0"
  by (simp_all add: example_bridge_def init_bridge_def)

lemma example_bridge_engine: "trading_engine (example_bridge eng) = eng"
  by (simp add: example_bridge_def init_bridge_def)

lemma rejecting_engine_sel:
  "orders (rejecting_engine symbol) = []"
  "respond (rejecting_engine symbol) earlier p =
     (if tp_symbol p = symbol then Inl (Error ''order rejected'')
      else Inr \<lparr> er_trade_id = Some ''mock'', er_price = Some 100.0,
                er_volume = Some (PyNum (tp_size p * 1000)) \<rparr>)"
  by (simp_all add: rejecting_engine_def)

lemma none_volume_engine_sel:
  "orders (none_volume_engine symbol) = []"
  "respond (none_volume_engine symbol) earlier p =
     Inr \<lparr> er_trade_id = Some ''mock'', er_price = Some 100.0,
           er_volume = (if tp_symbol p = symbol then Some PyNone
                        else Some (PyNum (tp_size p * 1000))) \<rparr>"
  by (simp_all add: none_volume_engine_def)

lemma example_symbols:
  "tp_symbol (trade_params_of btc_signal) = ''BTC-USDT''"
  "tp_symbol (trade_params_of eth_signal) = ''ETH-USDT''"
  by (simp_all add: trade_params_of_def btc_signal_def eth_signal_def)

lemma rejected_batch:
  "successful (fst (execute_prediction_trades (mock_bridge_env 0)
       (example_bridge (rejecting_engine ''BTC-USDT'')) [btc_signal, eth_signal])) = 1"
  "failed (fst (execute_prediction_trades (mock_bridge_env 0)
       (example_bridge (rejecting_engine ''BTC-USDT'')) [btc_signal, eth_signal])) = 1"
  "length (trades (fst (execute_prediction_trades (mock_bridge_env 0)
       (example_bridge (rejecting_engine ''BTC-USDT'')) [btc_signal, eth_signal]))) = 1"
  unfolding execute_prediction_trades_sel execute_loop_Cons
  by (simp_all add: execute_single_trade_success execute_single_trade_engine
      execute_single_trade_volume track_prediction_trade_sel example_bridge_engine
      rejecting_engine_sel example_symbols get_or_def add_value_def)

theorem batch_failure_isolation_witness:
  "int (length [btc_signal, eth_signal]) = 2
   \<and> successful (fst (execute_prediction_trades (mock_bridge_env 0)
       (example_bridge (rejecting_engine ''BTC-USDT'')) [btc_signal, eth_signal])) = 1
   \<and> failed (fst (execute_prediction_trades (mock_bridge_env 0)
       (example_bridge (rejecting_engine ''BTC-USDT'')) [btc_signal, eth_signal])) = 1
   \<and> orders (trading_engine (snd (execute_prediction_trades (mock_bridge_env 0)
       (example_bridge (rejecting_engine ''BTC-USDT'')) [btc_signal, eth_signal])))
       = [trade_params_of btc_signal, trade_params_of eth_signal]"
proof -
  have h: "\<forall>earlier p result.
       respond (trading_engine (example_bridge (rejecting_engine ''BTC-USDT''))) earlier p = Inr result \<longrightarrow>
       (\<exists>x. get_or (er_volume result) (PyNum 0) = PyNum x)"
    by (auto simp: example_bridge_engine rejecting_engine_sel get_or_def split: if_splits)
  show ?thesis
    using h batch_failure_isolation[of "mock_bridge_env 0"
        "example_bridge (rejecting_engine ''BTC-USDT'')" "[btc_signal, eth_signal]"]
      rejected_batch
    by (simp add: example_bridge_engine rejecting_engine_sel)
qed

text \<open>
  Claim C6 at a failing input. The back end executes both signals of the batch and answers
  the first with \<^verbatim>\<open>'volume': None\<close>. Both signals are submitted, but the first is
  counted twice: \<^verbatim>\<open>successful\<close> is incremented before the volume is added to
  \<^verbatim>\<open>total_volume\<close>, the addition raises \<^verbatim>\<open>TypeError\<close>, and the handler of the loop
  increments \<^verbatim>\<open>failed\<close>. The report has successful = 2 and failed = 1 for N = 2, and
  one entry in \<^verbatim>\<open>trades\<close>.
\<close>

theorem none_volume_counted_twice:
  "length [btc_signal, eth_signal] = 2
   \<and> successful (fst (execute_prediction_trades (mock_bridge_env 0)
       (example_bridge (none_volume_engine ''BTC-USDT'')) [btc_signal, eth_signal])) = 2
   \<and> failed (fst (execute_prediction_trades (mock_bridge_env 0)
       (example_bridge (none_volume_engine ''BTC-USDT'')) [btc_signal, eth_signal])) = 1
   \<and> length (trades (fst (execute_prediction_trades (mock_bridge_env 0)
       (example_bridge (none_volume_engine ''BTC-USDT'')) [btc_signal, eth_signal]))) = 1
   \<and> orders (trading_engine (snd (execute_prediction_trades (mock_bridge_env 0)
       (example_bridge (none_volume_engine ''BTC-USDT'')) [btc_signal, eth_signal])))
       = [trade_params_of btc_signal, trade_params_of eth_signal]"
  unfolding execute_prediction_trades_sel execute_loop_Cons
  by (simp add: execute_single_trade_success execute_single_trade_engine
      execute_single_trade_volume track_prediction_trade_sel example_bridge_engine
      none_volume_engine_sel example_symbols get_or_def add_value_def)

text \<open>
  Claim C7 at a failing input. The bridge creates two signals from the consensus data of
  \<^verbatim>\<open>main\<close>; the back end rejects the first and executes the second. After
  \<^verbatim>\<open>update_performance_metrics\<close>, \<^verbatim>\<open>total_signals\<close> is 1, not 2 (it is increased
  by the length of \<^verbatim>\<open>trades\<close>, which holds the successful results only), so the
  accuracy rate is 1/1 instead of 1/2.
\<close>

theorem total_signals_counts_successes_only:
  "process_prediction_signals (mock_bridge_env 0) (example_bridge (rejecting_engine ''BTC-USDT''))
       mock_consensus
     = ([btc_signal, eth_signal], example_bridge (rejecting_engine ''BTC-USDT''))
   \<and> successful (fst (execute_prediction_trades (mock_bridge_env 0)
         (example_bridge (rejecting_engine ''BTC-USDT'')) [btc_signal, eth_signal])) = 1
   \<and> failed (fst (execute_prediction_trades (mock_bridge_env 0)
         (example_bridge (rejecting_engine ''BTC-USDT'')) [btc_signal, eth_signal])) = 1
   \<and> total_signals (performance_metrics (snd (execute_prediction_trades (mock_bridge_env 0)
         (example_bridge (rejecting_engine ''BTC-USDT'')) [btc_signal, eth_signal]))) = 1
   \<and> executed_trades (performance_metrics (snd (execute_prediction_trades (mock_bridge_env 0)
         (example_bridge (rejecting_engine ''BTC-USDT'')) [btc_signal, eth_signal]))) = 1
   \<and> accuracy_rate (performance_metrics (snd (execute_prediction_trades (mock_bridge_env 0)
         (example_bridge (rejecting_engine ''BTC-USDT'')) [btc_signal, eth_signal]))) = 1"
proof -
  let ?env = "mock_bridge_env 0"
  let ?b = "example_bridge (rejecting_engine ''BTC-USDT'')"
  let ?run = "execute_prediction_trades ?env ?b [btc_signal, eth_signal]"
  have len: "int (length (trades (fst ?run))) = 1"
    using rejected_batch(3) by simp
  have ts: "total_signals (performance_metrics (snd ?run)) = 1"
    unfolding execute_prediction_trades_metrics(1) by (simp add: len example_bridge_metrics)
  have et: "executed_trades (performance_metrics (snd ?run)) = 1"
    unfolding execute_prediction_trades_metrics(2)
    by (simp add: rejected_batch example_bridge_metrics)
  have ar: "accuracy_rate (performance_metrics (snd ?run)) = 1"
    by (subst execute_prediction_trades_metrics(3)) (simp add: ts et)
  show ?thesis
    using mock_signals[of "rejecting_engine ''BTC-USDT''"] rejected_batch(1,2) ts et ar by simp
qed

section \<open>The confidence threshold\<close>

lemma generate_signals_eq:
  assumes "config_trading (config v) ''execution_threshold'' execution_threshold = Inr thr"
    and "config_trading (config v) ''max_position_size'' max_position_size = Inr m"
  shows "generate_signals env v cs =
     Inr (map (\<lambda>c. make_signal (clock env) c (min (m * mc_confidence c * \<bar>mc_signal_strength c\<bar>) m))
            (filter (\<lambda>c. thr \<le> mc_confidence c) cs),
          v\<lparr>trading_signals :=
              map (\<lambda>c. make_signal (clock env) c (min (m * mc_confidence c * \<bar>mc_signal_strength c\<bar>) m))
                (filter (\<lambda>c. thr \<le> mc_confidence c) cs)\<rparr>)"
  by (simp add: generate_signals_def assms(1) generate_loop_eq[OF assms(2)])

lemma validate_consensus_iff:
  "validate_consensus b c \<longleftrightarrow>
     (c_asset c \<noteq> None \<and> c_signal_strength c \<noteq> None
        \<and> (case c_confidence c of None \<Rightarrow> False
            | Some conf \<Rightarrow> section_get (trading (bridge_venue_config b)) execution_threshold 0.7 \<le> conf)
        \<and> (case c_agent_count c of None \<Rightarrow> False
            | Some n \<Rightarrow> section_get (agents (bridge_venue_config b)) min_agents_per_market 3 \<le> n))"
  by (auto simp: validate_consensus_def Let_def split: option.splits)

text \<open>
  Claim C2, as amended. In the orchestrator (with the keys \<^verbatim>\<open>execution_threshold\<close> and
  \<^verbatim>\<open>max_position_size\<close> configured) \<^verbatim>\<open>generate_signals\<close> returns one signal for
  each consensus whose confidence is at least the threshold, equality included, and none
  for the others. In the bridge the same inclusive comparison is necessary but not
  sufficient: \<^verbatim>\<open>validate_consensus\<close> holds exactly when the four required keys are
  present, the confidence is at least the threshold (default 0.7) and the agent count is at
  least \<^verbatim>\<open>min_agents_per_market\<close> (default 3); \<^verbatim>\<open>process_prediction_signals\<close> returns
  the signals of the consensus values that pass validation and for which
  \<^verbatim>\<open>create_trading_signal\<close> returns a signal, so a confidence below the threshold never
  yields a signal.
\<close>

theorem threshold_gate:
  "(config_trading (config v) ''execution_threshold'' execution_threshold = Inr thr
      \<and> config_trading (config v) ''max_position_size'' max_position_size = Inr m \<longrightarrow>
      (\<exists>v'. generate_signals env v cs =
         Inr (map (\<lambda>c. make_signal (clock env) c
                          (min (m * mc_confidence c * \<bar>mc_signal_strength c\<bar>) m))
                (filter (\<lambda>c. thr \<le> mc_confidence c) cs), v')))
   \<and> (validate_consensus b c \<longleftrightarrow>
        (c_asset c \<noteq> None \<and> c_signal_strength c \<noteq> None
           \<and> (case c_confidence c of None \<Rightarrow> False
               | Some conf \<Rightarrow> section_get (trading (bridge_venue_config b)) execution_threshold 0.7 \<le> conf)
           \<and> (case c_agent_count c of None \<Rightarrow> False
               | Some n \<Rightarrow> section_get (agents (bridge_venue_config b)) min_agents_per_market 3 \<le> n)))
   \<and> process_prediction_signals benv b bcs = (List.map_filter (signal_of benv b) bcs, b)
   \<and> (signal_of benv b c \<noteq> None \<longrightarrow> validate_consensus b c)
   \<and> (\<forall>conf. c_confidence c = Some conf
          \<and> conf < section_get (trading (bridge_venue_config b)) execution_threshold 0.7 \<longrightarrow>
          signal_of benv b c = None)"
proof (intro conjI impI allI)
  assume "config_trading (config v) ''execution_threshold'' execution_threshold = Inr thr
      \<and> config_trading (config v) ''max_position_size'' max_position_size = Inr m"
  then show "\<exists>v'. generate_signals env v cs =
         Inr (map (\<lambda>c. make_signal (clock env) c
                          (min (m * mc_confidence c * \<bar>mc_signal_strength c\<bar>) m))
                (filter (\<lambda>c. thr \<le> mc_confidence c) cs), v')"
    using generate_signals_eq[of v thr m env cs] by blast
next
  show "validate_consensus b c \<longleftrightarrow>
        (c_asset c \<noteq> None \<and> c_signal_strength c \<noteq> None
           \<and> (case c_confidence c of None \<Rightarrow> False
               | Some conf \<Rightarrow> section_get (trading (bridge_venue_config b)) execution_threshold 0.7 \<le> conf)
           \<and> (case c_agent_count c of None \<Rightarrow> False
               | Some n \<Rightarrow> section_get (agents (bridge_venue_config b)) min_agents_per_market 3 \<le> n))"
    by (rule validate_consensus_iff)
next
  show "process_prediction_signals benv b bcs = (List.map_filter (signal_of benv b) bcs, b)"
    by (rule process_prediction_signals_eq)
next
  assume "signal_of benv b c \<noteq> None"
  then show "validate_consensus b c" by (simp add: signal_of_def split: if_splits)
next
  fix conf
  assume h: "c_confidence c = Some conf
          \<and> conf < section_get (trading (bridge_venue_config b)) execution_threshold 0.7"
  then have "\<not> validate_consensus b c" unfolding validate_consensus_iff by auto
  then show "signal_of benv b c = None" by (simp add: signal_of_def)
qed

lemma default_thresholds:
  "config_trading get_default_config ''execution_threshold'' execution_threshold = Inr (7 / 10)"
  "config_trading get_default_config ''max_position_size'' max_position_size = Inr (1 / 40)"
  by (simp_all add: config_trading_def subscript_def get_default_config_def)

lemma example_venue_sel:
  "config (example_venue cfg ms) = cfg" "active_markets (example_venue cfg ms) = ms"
  by (simp_all add: example_venue_def)

text \<open>
  At the default threshold 0.7: the orchestrator keeps a consensus of confidence 0.7 and
  drops one of confidence 0.69; the bridge validates confidence 0.7 and yields no signal at
  0.69.
\<close>

theorem threshold_gate_witness:
  "config_trading (config (example_venue get_default_config [])) ''execution_threshold''
       execution_threshold = Inr (7 / 10)
   \<and> config_trading (config (example_venue get_default_config [])) ''max_position_size''
       max_position_size = Inr (1 / 40)
   \<and> mc_confidence weak_consensus = 7 / 10
   \<and> (\<exists>v'. generate_signals (stub_env 0) (example_venue get_default_config [])
               [weak_consensus, weak_consensus\<lparr>mc_confidence := 69 / 100\<rparr>]
             = Inr ([make_signal 0 weak_consensus (21 / 4000)], v'))
   \<and> validate_consensus (example_bridge MockTradingEngine) (btc_consensus\<lparr>c_confidence := Some (7 / 10)\<rparr>)
   \<and> signal_of (mock_bridge_env 0) (example_bridge MockTradingEngine) btc_consensus \<noteq> None
   \<and> validate_consensus (example_bridge MockTradingEngine) btc_consensus
   \<and> c_confidence (btc_consensus\<lparr>c_confidence := Some (69 / 100)\<rparr>) = Some (69 / 100)
   \<and> signal_of (mock_bridge_env 0) (example_bridge MockTradingEngine)
        (btc_consensus\<lparr>c_confidence := Some (69 / 100)\<rparr>) = None"
proof -
  let ?v = "example_venue get_default_config []"
  let ?b = "example_bridge MockTradingEngine"
  have t: "config_trading (config ?v) ''execution_threshold'' execution_threshold = Inr (7 / 10)"
    and m: "config_trading (config ?v) ''max_position_size'' max_position_size = Inr (1 / 40)"
    by (simp_all add: example_venue_sel default_thresholds)
  have w: "mc_confidence weak_consensus = 7 / 10" "mc_signal_strength weak_consensus = 3 / 10"
    by (simp_all add: weak_consensus_def)
  have g: "\<exists>v'. generate_signals (stub_env 0) ?v
               [weak_consensus, weak_consensus\<lparr>mc_confidence := 69 / 100\<rparr>]
             = Inr ([make_signal 0 weak_consensus (21 / 4000)], v')"
    using threshold_gate[of ?v "7 / 10" "1 / 40" "stub_env 0"
        "[weak_consensus, weak_consensus\<lparr>mc_confidence := 69 / 100\<rparr>]"] t m
    by (simp add: w stub_env_def)
  have iff: "validate_consensus ?b c \<longleftrightarrow>
        (c_asset c \<noteq> None \<and> c_signal_strength c \<noteq> None
           \<and> (case c_confidence c of None \<Rightarrow> False
               | Some conf \<Rightarrow> section_get (trading (bridge_venue_config ?b)) execution_threshold 0.7 \<le> conf)
           \<and> (case c_agent_count c of None \<Rightarrow> False
               | Some n \<Rightarrow> section_get (agents (bridge_venue_config ?b)) min_agents_per_market 3 \<le> n))"
    and only_if: "signal_of (mock_bridge_env 0) ?b c \<noteq> None \<longrightarrow> validate_consensus ?b c"
    and below: "\<forall>conf. c_confidence c = Some conf
          \<and> conf < section_get (trading (bridge_venue_config ?b)) execution_threshold 0.7 \<longrightarrow>
          signal_of (mock_bridge_env 0) ?b c = None"
    for c
    using threshold_gate[of ?v "7 / 10" "1 / 40" "stub_env 0" "[]" ?b c "mock_bridge_env 0" "[]"]
    by blast+
  have v1: "validate_consensus ?b (btc_consensus\<lparr>c_confidence := Some (7 / 10)\<rparr>)"
    unfolding iff by (simp add: btc_consensus_def example_bridge_sel default_values)
  have s1: "signal_of (mock_bridge_env 0) ?b btc_consensus \<noteq> None"
    by (simp add: example_signal_of)
  have v2: "validate_consensus ?b btc_consensus"
    using s1 only_if by blast
  have c3: "c_confidence (btc_consensus\<lparr>c_confidence := Some (69 / 100)\<rparr>) = Some (69 / 100)"
    by simp
  have lt: "(69 / 100 :: real) < section_get (trading (bridge_venue_config ?b)) execution_threshold 0.7"
    by (simp add: example_bridge_sel default_values)
  have s3: "signal_of (mock_bridge_env 0) ?b (btc_consensus\<lparr>c_confidence := Some (69 / 100)\<rparr>) = None"
    using c3 lt below by blast
  show ?thesis using t m w(1) g v1 s1 v2 c3 s3 by simp
qed

text \<open>
  Claim C2 as stated fails in the bridge: a consensus of confidence 0.82 clears the threshold
  0.7, and with two agents it yields no signal.
\<close>

theorem agent_count_gate_counterexample:
  "section_get (trading (bridge_venue_config (example_bridge MockTradingEngine)))
       execution_threshold 0.7 \<le> 0.82
   \<and> c_confidence (btc_consensus\<lparr>c_agent_count := Some 2\<rparr>) = Some 0.82
   \<and> fst (process_prediction_signals (mock_bridge_env 0) (example_bridge MockTradingEngine)
            [btc_consensus\<lparr>c_agent_count := Some 2\<rparr>]) = []"
  by (simp add: process_prediction_signals_eq List.map_filter_simps signal_of_def
      validate_consensus_def example_bridge_sel default_values btc_consensus_def)

end
